theory Spec2Isabelle
  imports Main
begin

section \<open>Values of the content repository\<close>

text \<open>
  Entries, field values, link objects and the persisted relationship files are JavaScript
  objects. They are embedded as one datatype of JSON-like values; an object keeps its keys
  in insertion order, as \<open>Object.entries\<close> reports them. Strings are lists of
  characters, one character standing for one code unit of the source string.
\<close>

datatype json =
    JUndefined
  | JNull
  | JBool bool
  | JNum int
  | JStr string
  | JArr "json list"
  | JObj "(string \<times> json) list"

datatype error = Error string

text \<open>Truthiness of a value, as \<open>if (v)\<close>, \<open>v || d\<close> and \<open>!v\<close> test it.\<close>

fun truthy :: "json \<Rightarrow> bool" where
  "truthy JUndefined = False"
| "truthy JNull = False"
| "truthy (JBool b) = b"
| "truthy (JNum n) = (n \<noteq> 0)"
| "truthy (JStr s) = (s \<noteq> [])"
| "truthy (JArr xs) = True"
| "truthy (JObj kvs) = True"

text \<open>Property access \<open>v[k]\<close> (and \<open>v?.[k]\<close>): a missing key reads as undefined.\<close>

fun jget :: "json \<Rightarrow> string \<Rightarrow> json" where
  "jget (JObj kvs) k = (case map_of kvs k of Some v \<Rightarrow> v | None \<Rightarrow> JUndefined)"
| "jget v k = JUndefined"

fun object_values :: "json \<Rightarrow> json list" where
  "object_values (JObj kvs) = map snd kvs"
| "object_values (JArr xs) = xs"
| "object_values (JStr s) = map (\<lambda>c. JStr [c]) s"
| "object_values v = []"

text \<open>Decimal digits of a number, as a template literal or an array index prints it.\<close>

fun decimal :: "nat \<Rightarrow> string" where
  "decimal n = (if n < 10 then [char_of (48 + n)]
                else decimal (n div 10) @ [char_of (48 + n mod 10)])"

fun object_entries :: "json \<Rightarrow> (string \<times> json) list" where
  "object_entries (JObj kvs) = kvs"
| "object_entries (JArr xs) = zip (map decimal [0..<length xs]) xs"
| "object_entries (JStr s) = zip (map decimal [0..<length s]) (map (\<lambda>c. JStr [c]) s)"
| "object_entries v = []"

text \<open>\<open>String.prototype.trim\<close>, \<open>startsWith\<close> and \<open>substring\<close> with one argument.\<close>

definition is_space :: "char \<Rightarrow> bool" where
  "is_space c = (c \<in> set [CHR '' '', CHR 0x09, CHR 0x0A, CHR 0x0B, CHR 0x0C, CHR 0x0D, CHR 0xA0])"

definition trim :: "string \<Rightarrow> string" where
  "trim s = rev (dropWhile is_space (rev (dropWhile is_space s)))"

definition startsWith :: "string \<Rightarrow> string \<Rightarrow> bool" where
  "startsWith s p = (take (length p) s = p)"

definition substring :: "string \<Rightarrow> nat \<Rightarrow> string" where
  "substring s n = drop n s"

section \<open>The clone service: configuration and field policy\<close>

record prefixConfig =
  prefix :: string
  targetFields :: "string list"
  fieldTypes :: "string list"

record options =
  preserveFormatting :: bool
  tagHandling :: "string option"

text \<open>
  The external translator: \<open>translateText(text, sourceLang, targetLang, options?)\<close>. A
  rejected promise is the left summand.
\<close>

type_synonym translator = "string \<Rightarrow> string \<Rightarrow> string \<Rightarrow> options option \<Rightarrow> error + string"

record translationConfig =
  enabled :: bool
  sourceLanguage :: string
  targetLanguage :: string
  translateableTypes :: "string list"
  preservePrefix :: bool

record validation =
  v_in :: json

record fieldDef =
  fd_id :: string
  fd_type :: string
  fd_required :: bool
  fd_validations :: "validation list option"

record cloneService =
  prefixCfg :: prefixConfig
  translationCfg :: translationConfig
  translator :: "translator option"
  emptyFieldIds :: "string list"
  copyAsIsFieldIds :: "string list"
  authorFieldIds :: "string list"
  cultureFieldNames :: "string list"
  mainCmsPageSourceLanguage :: "string option"

text \<open>The constructor: \<open>new ServerContentfulCloneService(cma, deeplApiKey)\<close>, where the
  second argument is the translator built from the key, if a key is given.\<close>

definition ServerContentfulCloneService :: "translator option \<Rightarrow> cloneService" where
  "ServerContentfulCloneService deepl =
     \<lparr> prefixCfg = \<lparr> prefix = ''[Clone]'', targetFields = [''title''],
                     fieldTypes = [''Symbol'', ''Text''] \<rparr>,
       translationCfg = \<lparr> enabled = (deepl \<noteq> None), sourceLanguage = '''',
                          targetLanguage = ''IT'',
                          translateableTypes = [''Symbol'', ''Text''],
                          preservePrefix = True \<rparr>,
       translator = deepl,
       emptyFieldIds = [''slug'', ''parentPage'', ''productionUrl'', ''authors''],
       copyAsIsFieldIds = [''domain'', ''pageType'', ''productionUrl'', ''makeModel'',
                           ''publicationDate'', ''lastModificationDate'', ''makeIds'',
                           ''modelIds'', ''trackingName''],
       authorFieldIds = [''authors''],
       cultureFieldNames = [''culture''],
       mainCmsPageSourceLanguage = None \<rparr>"

definition shouldEmptyField :: "cloneService \<Rightarrow> string \<Rightarrow> bool" where
  "shouldEmptyField svc fieldId = (fieldId \<in> set (emptyFieldIds svc))"

definition shouldCopyAsIs :: "cloneService \<Rightarrow> string \<Rightarrow> bool" where
  "shouldCopyAsIs svc fieldId = (fieldId \<in> set (copyAsIsFieldIds svc))"

definition isAuthorField :: "cloneService \<Rightarrow> string \<Rightarrow> bool" where
  "isAuthorField svc fieldId = (fieldId \<in> set (authorFieldIds svc))"

definition getEmptyValueForField :: "fieldDef \<Rightarrow> string \<Rightarrow> json option" where
  "getEmptyValueForField fieldDefinition locale =
     (if fd_type fieldDefinition = ''Symbol'' \<or> fd_type fieldDefinition = ''Text''
        then Some (JObj [(locale, JStr '''')])
      else if fd_type fieldDefinition = ''Array'' then Some (JObj [(locale, JArr [])])
      else if fd_type fieldDefinition = ''Object'' then Some (JObj [(locale, JObj [])])
      else None)"

text \<open>The first validation whose \<open>in\<close> is a non-empty array decides a dropdown's default.\<close>

fun firstAllowedValue :: "validation list \<Rightarrow> json option" where
  "firstAllowedValue [] = None"
| "firstAllowedValue (v # vs) =
     (case v_in v of JArr (x # xs) \<Rightarrow> Some x | _ \<Rightarrow> firstAllowedValue vs)"

text \<open>\<open>getDefaultValueForField\<close>; \<open>now\<close> is \<open>new Date().toISOString()\<close> at the call.\<close>

definition defaultScalar :: "string \<Rightarrow> fieldDef \<Rightarrow> json" where
  "defaultScalar now fieldDefinition =
     (let fieldType = fd_type fieldDefinition in
      if fieldType = ''Symbol'' \<or> fieldType = ''Text''
        then JStr (''Default '' @ fd_id fieldDefinition)
      else if fieldType = ''Integer'' \<or> fieldType = ''Number'' then JNum 0
      else if fieldType = ''Boolean'' then JBool False
      else if fieldType = ''Date'' then JStr now
      else if fieldType = ''Array'' then JArr []
      else if fieldType = ''Object'' then JObj []
      else JNull)"

definition getDefaultValueForField :: "string \<Rightarrow> fieldDef \<Rightarrow> string \<Rightarrow> json" where
  "getDefaultValueForField now fieldDefinition locale =
     (case (if fd_type fieldDefinition = ''Symbol''
            then (case fd_validations fieldDefinition of
                    Some vs \<Rightarrow> firstAllowedValue vs | None \<Rightarrow> None)
            else None) of
        Some x \<Rightarrow> JObj [(locale, x)]
      | None \<Rightarrow> JObj [(locale, defaultScalar now fieldDefinition)])"

text \<open>The branch of \<open>cloneEntryRecursive\<close> for a field with no value in the source:
  the value written to the new entry, if any.\<close>

definition missingFieldValue :: "cloneService \<Rightarrow> string \<Rightarrow> fieldDef \<Rightarrow> string \<Rightarrow> json option" where
  "missingFieldValue svc now fieldDef locale =
     (if fd_required fieldDef then
        (if shouldEmptyField svc (fd_id fieldDef) then getEmptyValueForField fieldDef locale
         else (case getDefaultValueForField now fieldDef locale of
                 JNull \<Rightarrow> None | v \<Rightarrow> Some v))
      else None)"

section \<open>Text translation\<close>

text \<open>The prefix with its separating blank: what the clone prepends to a prefixed field
  and what \<open>translateText\<close> detaches as \<open>extractedPrefix\<close>.\<close>

definition clonePrefix :: "cloneService \<Rightarrow> string" where
  "clonePrefix svc = prefix (prefixCfg svc) @ '' ''"

text \<open>The body of the \<open>try\<close> block of \<open>translateText\<close>, and the function with its guards
  and its \<open>catch\<close>, which returns the text it was given.\<close>

definition translateText_try ::
  "cloneService \<Rightarrow> translator \<Rightarrow> string \<Rightarrow> string \<Rightarrow> error + string" where
  "translateText_try svc tr text effectiveSourceLanguage =
     (let (extractedPrefix, textToTranslate) =
            (if preservePrefix (translationCfg svc) \<and> startsWith text (prefix (prefixCfg svc))
             then (prefix (prefixCfg svc) @ '' '',
                   substring text (length (prefix (prefixCfg svc) @ '' '')))
             else ('''', text))
      in if trim textToTranslate = [] \<or> length (trim textToTranslate) < 2 then Inr text
         else (case tr textToTranslate effectiveSourceLanguage
                      (targetLanguage (translationCfg svc)) None of
                 Inl e \<Rightarrow> Inl e
               | Inr result \<Rightarrow> Inr (extractedPrefix @ result)))"

definition translateText :: "cloneService \<Rightarrow> string \<Rightarrow> string \<Rightarrow> string option \<Rightarrow> string" where
  "translateText svc text fieldType sourceLang =
     (case translator svc of
        None \<Rightarrow> text
      | Some tr \<Rightarrow>
          if \<not> enabled (translationCfg svc) \<or> text = [] then text
          else if fieldType \<notin> set (translateableTypes (translationCfg svc)) then text
          else
            (let effectiveSourceLanguage =
                   (case sourceLang of
                      Some l \<Rightarrow> if l \<noteq> [] then l else sourceLanguage (translationCfg svc)
                    | None \<Rightarrow> sourceLanguage (translationCfg svc))
             in if effectiveSourceLanguage = [] then text
                else (case translateText_try svc tr text effectiveSourceLanguage of
                        Inl e \<Rightarrow> text
                      | Inr r \<Rightarrow> r)))"

text \<open>\<open>translateText\<close> of the incremental service. The translator is created inside the
  \<open>try\<close> block from the key, which may itself fail.\<close>

record translationContext =
  ctx_sourceLanguage :: string
  ctx_targetLanguage :: string



section \<open>The deep reference tracker\<close>

text \<open>An entry of the repository, as \<open>environment.getEntry\<close> returns it. The fields keep
  the order in which \<open>Object.entries(entry.fields)\<close> lists them.\<close>

record entry =
  e_id :: string
  e_version :: int
  e_publishedVersion :: "int option"
  e_contentType :: string
  e_fields :: "(string \<times> json) list"

text \<open>\<open>getEntry\<close> of the environment: \<open>None\<close> stands for the rejected promise.\<close>

type_synonym environment = "string \<Rightarrow> entry option"

text \<open>\<open>entry.sys.publishedVersion || entry.sys.version\<close>\<close>

definition entryVersion :: "entry \<Rightarrow> int" where
  "entryVersion e =
     (case e_publishedVersion e of
        Some p \<Rightarrow> if p \<noteq> 0 then p else e_version e
      | None \<Rightarrow> e_version e)"

datatype refNode =
  RefNode (n_id: string) (n_version: int) (n_depth: nat) (n_parentId: "string option")
    (n_parentField: "string option") (n_contentHash: string) (n_lastUpdated: string)
    (n_children: "refNode list")

record deepMap =
  dm_sourceEntryId :: string
  dm_targetEntryId :: string
  dm_maxDepth :: nat
  dm_lastScanned :: string
  dm_referenceTree :: refNode
  dm_flattenedRefs :: "(string \<times> refNode) list"

text \<open>The tracker object. \<open>digest\<close> stands for SHA-256 over \<open>JSON.stringify\<close> of the
  translatable fields; \<open>childFieldChanges\<close> stands for \<open>detectChildEntryFieldChanges\<close>, which
  reads the entry and the tracking directory and never throws.\<close>

record tracker =
  maxDepth :: nat
  autoTranslateNewRefs :: bool
  digest :: "(string \<times> json) list \<Rightarrow> string"
  childFieldChanges :: "string \<Rightarrow> refNode \<Rightarrow> refNode \<Rightarrow> json list"

text \<open>The constructor: \<open>options.maxDepth || 3\<close> and \<open>options.autoTranslateNewRefs !== false\<close>.\<close>

definition DeepReferenceTracker ::
  "((string \<times> json) list \<Rightarrow> string) \<Rightarrow> (string \<Rightarrow> refNode \<Rightarrow> refNode \<Rightarrow> json list) \<Rightarrow>
   nat option \<Rightarrow> bool option \<Rightarrow> tracker" where
  "DeepReferenceTracker dg fc optMaxDepth optAuto =
     \<lparr> maxDepth = (case optMaxDepth of Some d \<Rightarrow> if d \<noteq> 0 then d else 3 | None \<Rightarrow> 3),
       autoTranslateNewRefs = (optAuto \<noteq> Some False),
       digest = dg, childFieldChanges = fc \<rparr>"

definition isLink :: "json \<Rightarrow> bool" where
  "isLink item = (jget (jget item ''sys'') ''type'' = JStr ''Link'')"

definition isAssetReference :: "json \<Rightarrow> bool" where
  "isAssetReference ref = (jget (jget ref ''sys'') ''linkType'' = JStr ''Asset'')"

fun isLocalizedField :: "json \<Rightarrow> bool" where
  "isLocalizedField (JObj kvs) = (\<not> truthy (jget (JObj kvs) ''sys''))"
| "isLocalizedField v = False"

fun isReferenceField :: "json \<Rightarrow> bool" where
  "isReferenceField (JArr xs) = list_ex isLink xs"
| "isReferenceField (JObj kvs) =
     (if \<not> truthy (jget (JObj kvs) ''sys'')
      then list_ex (\<lambda>kv. isReferenceField (snd kv)) kvs
      else isLink (JObj kvs))"
| "isReferenceField v = False"

fun extractReferencedEntries :: "json \<Rightarrow> json list" where
  "extractReferencedEntries (JArr xs) = filter isLink xs"
| "extractReferencedEntries (JObj kvs) =
     (if \<not> truthy (jget (JObj kvs) ''sys'')
      then concat (map (\<lambda>kv. extractReferencedEntries (snd kv)) kvs)
      else if isLink (JObj kvs) then [JObj kvs] else [])"
| "extractReferencedEntries v = []"

definition nonTrackableReferenceFields :: "string list" where
  "nonTrackableReferenceFields =
     [''parentPage'', ''authors'', ''sys'', ''contentfulMetadata'', ''makeModel'', ''makeIds'',
      ''modelIds'', ''trackingName'', ''internalName'', ''fieldStatus'', ''automationTags'',
      ''culture'', ''domain'', ''pageType'']"

definition shouldTrackReferenceField :: "string \<Rightarrow> bool" where
  "shouldTrackReferenceField fieldName =
     (\<not> list_ex (\<lambda>field. startsWith fieldName field) nonTrackableReferenceFields)"

definition nonTranslatableFields :: "string list" where
  "nonTranslatableFields =
     [''slug'', ''sys_'', ''internalName'', ''id'', ''contentfulMetadata'', ''parentPage'',
      ''authors'', ''avatar'', ''image'', ''heroImages'', ''teaserImage'', ''icon'', ''plans'',
      ''sections'', ''elements'', ''links'', ''faq'', ''rows'', ''recommendedCategory'',
      ''product'', ''metaIndexToggle'', ''enableFeaturedArticle'', ''showInGoogleNews'',
      ''hasHighlightedText'', ''isPrimary'', ''spotlight'', ''publishedCounter'',
      ''fieldStatus'', ''automationTags'']"

definition isString :: "json \<Rightarrow> bool" where
  "isString v = (case v of JStr s \<Rightarrow> True | _ \<Rightarrow> False)"

text \<open>\<open>isTranslatableField\<close> of the tracker.\<close>

definition isTranslatableField :: "string \<Rightarrow> json \<Rightarrow> bool" where
  "isTranslatableField fieldName fieldValue =
     (if list_ex (\<lambda>field. startsWith fieldName field) nonTranslatableFields then False
      else if truthy (jget (jget fieldValue ''sys'') ''linkType'') then False
      else (case fieldValue of
              JArr xs \<Rightarrow> False
            | JStr s \<Rightarrow> True
            | JObj kvs \<Rightarrow>
                (if isLocalizedField fieldValue then list_ex isString (map snd kvs)
                 else truthy (jget fieldValue ''nodeType''))
            | _ \<Rightarrow> False))"

definition generateContentHash :: "tracker \<Rightarrow> entry \<Rightarrow> string" where
  "generateContentHash t e =
     digest t (filter (\<lambda>kv. isTranslatableField (fst kv) (snd kv)) (e_fields e))"

text \<open>The id a link points to, when it is a non-empty string (\<open>ref?.sys?.id\<close> is truthy).\<close>

definition linkId :: "json \<Rightarrow> string option" where
  "linkId ref = (case jget (jget ref ''sys'') ''id'' of
                   JStr i \<Rightarrow> if i \<noteq> [] then Some i else None
                 | _ \<Rightarrow> None)"

text \<open>\<open>buildReferenceTree\<close>. \<open>now\<close> is the time stamp written into the nodes. A referenced
  entry that cannot be fetched is skipped, as the \<open>catch\<close> around the recursive call does.\<close>

function buildReferenceTree ::
  "tracker \<Rightarrow> environment \<Rightarrow> string \<Rightarrow> entry \<Rightarrow> nat \<Rightarrow> string option \<Rightarrow> string option \<Rightarrow> refNode"
where
  "buildReferenceTree t env now e currentDepth parentId parentField =
     RefNode (e_id e) (entryVersion e) currentDepth parentId parentField
       (generateContentHash t e) now
       (if currentDepth < maxDepth t then
          concat (map (\<lambda>kv.
            if isReferenceField (snd kv) \<and> shouldTrackReferenceField (fst kv) then
              concat (map (\<lambda>ref.
                case linkId ref of
                  None \<Rightarrow> []
                | Some rid \<Rightarrow>
                    if rid = e_id e then []
                    else if isAssetReference ref then []
                    else (case env rid of
                            None \<Rightarrow> []
                          | Some referencedEntry \<Rightarrow>
                              [buildReferenceTree t env now referencedEntry (currentDepth + 1)
                                 (Some (e_id e)) (Some (fst kv))]))
                (extractReferencedEntries (snd kv)))
            else [])
            (e_fields e))
        else [])"
  by pat_completeness auto
termination
  by (relation "measure (\<lambda>(t, env, now, e, currentDepth, parentId, parentField).
        maxDepth t - currentDepth)") auto

text \<open>\<open>flattenReferenceTree\<close>: an assignment to a key already present keeps the key's
  place and replaces its value, as a property assignment on an object does.\<close>

fun assign :: "'k \<Rightarrow> 'v \<Rightarrow> ('k \<times> 'v) list \<Rightarrow> ('k \<times> 'v) list" where
  "assign k v [] = [(k, v)]"
| "assign k v (p # ps) = (if fst p = k then (k, v) # ps else p # assign k v ps)"

definition withoutChildren :: "refNode \<Rightarrow> refNode" where
  "withoutChildren n =
     RefNode (n_id n) (n_version n) (n_depth n) (n_parentId n) (n_parentField n)
       (n_contentHash n) (n_lastUpdated n) []"

fun addNode :: "refNode \<Rightarrow> (string \<times> refNode) list \<Rightarrow> (string \<times> refNode) list" where
  "addNode (RefNode i v d p f h u cs) flattened =
     fold addNode cs (assign i (withoutChildren (RefNode i v d p f h u cs)) flattened)"

definition flattenReferenceTree :: "refNode \<Rightarrow> (string \<times> refNode) list" where
  "flattenReferenceTree tree = addNode tree []"

text \<open>\<open>buildCurrentReferenceMapForComparison\<close>; it throws when the source entry cannot be
  fetched.\<close>

definition buildCurrentReferenceMapForComparison ::
  "tracker \<Rightarrow> environment \<Rightarrow> string \<Rightarrow> string \<Rightarrow> string \<Rightarrow> error + deepMap" where
  "buildCurrentReferenceMapForComparison t env now sourceEntryId targetEntryId =
     (case env sourceEntryId of
        None \<Rightarrow> Inl (Error ''The resource could not be found.'')
      | Some sourceEntry \<Rightarrow>
          (let referenceTree = buildReferenceTree t env now sourceEntry 0 None None
           in Inr \<lparr> dm_sourceEntryId = sourceEntryId, dm_targetEntryId = targetEntryId,
                    dm_maxDepth = maxDepth t, dm_lastScanned = now,
                    dm_referenceTree = referenceTree,
                    dm_flattenedRefs = flattenReferenceTree referenceTree \<rparr>))"

subsection \<open>Comparing a stored map with the current one\<close>

record changedReference =
  cr_id :: string
  cr_depth :: nat
  cr_oldVersion :: int
  cr_newVersion :: int
  cr_parentField :: "string option"
  cr_fieldChanges :: "json list"

record newReference =
  nr_id :: string
  nr_depth :: nat
  nr_parentId :: string
  nr_parentField :: string
  nr_needsTranslation :: bool

record changes =
  changedReferences :: "changedReference list"
  newReferences :: "newReference list"
  removedReferences :: "string list"

text \<open>\<open>v || d\<close> for an optional string.\<close>

definition orElse :: "string option \<Rightarrow> string \<Rightarrow> string" where
  "orElse v d = (case v of Some s \<Rightarrow> if s \<noteq> [] then s else d | None \<Rightarrow> d)"

definition mkNewReference :: "tracker \<Rightarrow> string \<Rightarrow> string \<Rightarrow> refNode \<Rightarrow> newReference" where
  "mkNewReference t sourceEntryId refId refNode =
     \<lparr> nr_id = refId, nr_depth = n_depth refNode,
       nr_parentId = orElse (n_parentId refNode) sourceEntryId,
       nr_parentField = orElse (n_parentField refNode) ''unknown'',
       nr_needsTranslation = autoTranslateNewRefs t \<rparr>"

text \<open>The loop over \<open>Object.entries(currentRefs)\<close> and the loop over
  \<open>Object.keys(storedRefs)\<close> of \<open>detectDeepReferenceChanges\<close>.\<close>

fun compareCurrent ::
  "tracker \<Rightarrow> string \<Rightarrow> (string \<times> refNode) list \<Rightarrow> (string \<times> refNode) list \<Rightarrow> changes \<Rightarrow> changes"
where
  "compareCurrent t sourceEntryId storedRefs [] chg = chg"
| "compareCurrent t sourceEntryId storedRefs ((refId, currentRef) # rest) chg =
     compareCurrent t sourceEntryId storedRefs rest
       (case map_of storedRefs refId of
          Some storedRef \<Rightarrow>
            (let versionChanged = (n_version currentRef > n_version storedRef);
                 contentChanged = (n_contentHash currentRef \<noteq> n_contentHash storedRef)
             in if versionChanged \<or> contentChanged then
                  chg\<lparr> changedReferences := changedReferences chg @
                    [\<lparr> cr_id = refId, cr_depth = n_depth currentRef,
                       cr_oldVersion = n_version storedRef, cr_newVersion = n_version currentRef,
                       cr_parentField = n_parentField currentRef,
                       cr_fieldChanges = childFieldChanges t refId storedRef currentRef \<rparr>] \<rparr>
                else chg)
        | None \<Rightarrow>
            chg\<lparr> newReferences := newReferences chg @
              [mkNewReference t sourceEntryId refId currentRef] \<rparr>)"

fun compareStored :: "(string \<times> refNode) list \<Rightarrow> string list \<Rightarrow> changes \<Rightarrow> changes" where
  "compareStored currentRefs [] chg = chg"
| "compareStored currentRefs (refId # rest) chg =
     compareStored currentRefs rest
       (if map_of currentRefs refId = None
        then chg\<lparr> removedReferences := removedReferences chg @ [refId] \<rparr>
        else chg)"

definition compareMaps :: "tracker \<Rightarrow> string \<Rightarrow> deepMap \<Rightarrow> deepMap \<Rightarrow> changes" where
  "compareMaps t sourceEntryId storedMap currentMap =
     compareStored (dm_flattenedRefs currentMap) (map fst (dm_flattenedRefs storedMap))
       (compareCurrent t sourceEntryId (dm_flattenedRefs storedMap) (dm_flattenedRefs currentMap)
          \<lparr> changedReferences = [], newReferences = [], removedReferences = [] \<rparr>)"

text \<open>With no stored map every current reference but the source entry itself is new.\<close>

definition allNew :: "tracker \<Rightarrow> string \<Rightarrow> deepMap \<Rightarrow> changes" where
  "allNew t sourceEntryId currentMap =
     \<lparr> changedReferences = [],
       newReferences = map (\<lambda>kv. mkNewReference t sourceEntryId (fst kv) (snd kv))
                         (filter (\<lambda>kv. fst kv \<noteq> sourceEntryId) (dm_flattenedRefs currentMap)),
       removedReferences = [] \<rparr>"

subsection \<open>Shape of a reference tree\<close>

text \<open>Every child is one level below its parent and not below the depth cap, and a node
  at the cap has no children.\<close>

fun depthsOK :: "nat \<Rightarrow> refNode \<Rightarrow> bool" where
  "depthsOK m (RefNode i v d p f h u cs) =
     ((d < m \<or> cs = []) \<and>
      list_all (\<lambda>c. n_depth c = d + 1 \<and> n_depth c \<le> m \<and> depthsOK m c) cs)"

text \<open>No node has a child with its own id.\<close>

fun noSelfChild :: "refNode \<Rightarrow> bool" where
  "noSelfChild (RefNode i v d p f h u cs) = list_all (\<lambda>c. n_id c \<noteq> i \<and> noSelfChild c) cs"

text \<open>No id appears twice on a path from the root: \<open>seen\<close> holds the ids of the ancestors.\<close>

fun pathDistinct :: "string list \<Rightarrow> refNode \<Rightarrow> bool" where
  "pathDistinct seen (RefNode i v d p f h u cs) =
     (i \<notin> set seen \<and> list_all (pathDistinct (i # seen)) cs)"

text \<open>An entry with one link field, and a repository of two entries that refer to each
  other.\<close>

definition entryLink :: "string \<Rightarrow> json" where
  "entryLink i = JObj [(''sys'', JObj [(''type'', JStr ''Link''), (''linkType'', JStr ''Entry''),
                                      (''id'', JStr i)])]"

definition linkingEntry :: "string \<Rightarrow> string \<Rightarrow> string \<Rightarrow> entry" where
  "linkingEntry i ct target =
     \<lparr> e_id = i, e_version = 1, e_publishedVersion = None, e_contentType = ct,
       e_fields = [(''ref'', JObj [(''en-US-POSIX'', entryLink target)])] \<rparr>"

definition cycleEnv :: environment where
  "cycleEnv i = (if i = ''A'' then Some (linkingEntry ''A'' ''cmsPage'' ''B'')
                 else if i = ''B'' then Some (linkingEntry ''B'' ''scText'' ''A'')
                 else None)"

section \<open>The relationship store\<close>

text \<open>
  A relationship as it is persisted. \<open>metadata\<close>, \<open>lastTranslatedVersion\<close> and \<open>createdAt\<close> may
  be missing from a stored record, hence the options.
\<close>

record metadata =
  lastTranslatedVersion :: "int option"
  lastUpdated :: string
  createdAt :: "string option"

record relationship =
  r_sourceEntryId :: string
  r_targetEntryId :: string
  r_metadata :: "metadata option"
  r_translationContext :: translationContext
  r_fieldHashes :: "(string \<times> string) list"
  r_cloneMapping :: "(string \<times> string) list"
  r_deepReferenceMap :: "deepMap option"
  r_backupData :: "json option"

text \<open>What a file of the tracking directory parses to: a relationship, a tree snapshot, or
  nothing (\<open>JSON.parse\<close> throws).\<close>

datatype fileData = RelationshipFile relationship | DeepRefsFile deepMap | Unparseable

text \<open>
  The world outside the services: the \<open>translationMetadata\<close> entries of the repository in
  the order in which a query lists them, each with its \<open>relationshipId\<close>; whether each kind
  of call to the repository succeeds; the files of the tracking directory by name; the
  content entries.
\<close>

record world =
  metaEntries :: "(string \<times> relationship) list"
  getEntries_ok :: bool
  getEntry_ok :: bool
  update_ok :: bool
  createEntry_ok :: bool
  files :: "string \<Rightarrow> fileData option"
  entries :: environment

subsection \<open>The repository-backed metadata service\<close>

definition generateRelationshipId :: "string \<Rightarrow> string \<Rightarrow> string" where
  "generateRelationshipId sourceEntryId targetEntryId = sourceEntryId @ ''_'' @ targetEntryId"

text \<open>\<open>findRelationshipMetadata\<close>: the first entry with the relationship id and its position;
  a failing query is caught and reads as no entry.\<close>

fun findFirst :: "('a \<Rightarrow> bool) \<Rightarrow> 'a list \<Rightarrow> (nat \<times> 'a) option" where
  "findFirst P [] = None"
| "findFirst P (x # xs) =
     (if P x then Some (0, x) else map_option (\<lambda>p. (Suc (fst p), snd p)) (findFirst P xs))"

definition findRelationshipMetadata ::
  "world \<Rightarrow> string \<Rightarrow> string \<Rightarrow> (nat \<times> string \<times> relationship) option" where
  "findRelationshipMetadata w sourceEntryId targetEntryId =
     (if getEntries_ok w
      then findFirst (\<lambda>e. fst e = generateRelationshipId sourceEntryId targetEntryId)
             (metaEntries w)
      else None)"

text \<open>\<open>storeRelationshipMetadata\<close>: every field of the entry is written from \<open>data\<close>, the
  ids from the arguments.\<close>

definition storeRelationshipMetadata ::
  "world \<Rightarrow> string \<Rightarrow> string \<Rightarrow> relationship \<Rightarrow> error + world" where
  "storeRelationshipMetadata w sourceEntryId targetEntryId data =
     (let relationshipId = generateRelationshipId sourceEntryId targetEntryId;
          fields = data\<lparr> r_sourceEntryId := sourceEntryId, r_targetEntryId := targetEntryId \<rparr>
      in case findRelationshipMetadata w sourceEntryId targetEntryId of
           Some (i, existingEntry) \<Rightarrow>
             if \<not> getEntry_ok w then Inl (Error ''getEntry failed'')
             else if \<not> update_ok w then Inl (Error ''update failed'')
             else Inr (w\<lparr> metaEntries := (metaEntries w)[i := (relationshipId, fields)] \<rparr>)
         | None \<Rightarrow>
             if \<not> createEntry_ok w then Inl (Error ''createEntry failed'')
             else Inr (w\<lparr> metaEntries := metaEntries w @ [(relationshipId, fields)] \<rparr>))"

definition getRelationshipMetadata :: "world \<Rightarrow> string \<Rightarrow> string \<Rightarrow> relationship option" where
  "getRelationshipMetadata w sourceEntryId targetEntryId =
     (case findRelationshipMetadata w sourceEntryId targetEntryId of
        None \<Rightarrow> None
      | Some (i, existingEntry) \<Rightarrow> Some (snd existingEntry))"

text \<open>\<open>storeDeepReferenceMap\<close> of the metadata service. Without an existing relationship it
  creates a minimal one around the map.\<close>

definition minimalData :: "string \<Rightarrow> string \<Rightarrow> string \<Rightarrow> deepMap \<Rightarrow> relationship" where
  "minimalData now sourceEntryId targetEntryId dm =
     \<lparr> r_sourceEntryId = sourceEntryId, r_targetEntryId = targetEntryId,
       r_metadata = Some \<lparr> lastTranslatedVersion = Some 0, lastUpdated = now,
                            createdAt = Some now \<rparr>,
       r_translationContext = \<lparr> ctx_sourceLanguage = ''unknown'',
                                 ctx_targetLanguage = ''unknown'' \<rparr>,
       r_fieldHashes = [], r_cloneMapping = [],
       r_deepReferenceMap = Some dm, r_backupData = None \<rparr>"

definition cms_storeDeepReferenceMap ::
  "world \<Rightarrow> string \<Rightarrow> string \<Rightarrow> string \<Rightarrow> deepMap \<Rightarrow> error + world" where
  "cms_storeDeepReferenceMap w now sourceEntryId targetEntryId dm =
     (case getRelationshipMetadata w sourceEntryId targetEntryId of
        Some existingData \<Rightarrow>
          storeRelationshipMetadata w sourceEntryId targetEntryId
            (existingData\<lparr> r_deepReferenceMap := Some dm \<rparr>)
      | None \<Rightarrow>
          storeRelationshipMetadata w sourceEntryId targetEntryId
            (minimalData now sourceEntryId targetEntryId dm))"

definition getDeepReferenceMap :: "world \<Rightarrow> string \<Rightarrow> string \<Rightarrow> deepMap option" where
  "getDeepReferenceMap w sourceEntryId targetEntryId =
     (case getRelationshipMetadata w sourceEntryId targetEntryId of
        None \<Rightarrow> None
      | Some data \<Rightarrow> r_deepReferenceMap data)"

subsection \<open>The incremental translation service\<close>

text \<open>
  The service object: \<open>contentfulMetadataService\<close> is null until \<open>initialize\<close> has run;
  \<open>deepReferenceTracker\<close> is the service's own property of that name, and
  \<open>cds_deepReferenceTracker\<close> the one of its change detection service.
  \<open>parentFieldChanges\<close> stands for the list that \<open>detectParentFieldChanges\<close> assembles from
  the field hashes and the deep changes; assembling it writes nothing.
\<close>

record incrementalService =
  contentfulMetadataService :: bool
  deepReferenceTracker :: "tracker option"
  cds_deepReferenceTracker :: "tracker option"
  trackerDigest :: "(string \<times> json) list \<Rightarrow> string"
  trackerFieldChanges :: "string \<Rightarrow> refNode \<Rightarrow> refNode \<Rightarrow> json list"
  parentFieldChanges :: "entry \<Rightarrow> relationship option \<Rightarrow> changes option \<Rightarrow> json list"

definition ServerIncrementalTranslationService ::
  "((string \<times> json) list \<Rightarrow> string) \<Rightarrow> (string \<Rightarrow> refNode \<Rightarrow> refNode \<Rightarrow> json list) \<Rightarrow>
   (entry \<Rightarrow> relationship option \<Rightarrow> changes option \<Rightarrow> json list) \<Rightarrow> incrementalService" where
  "ServerIncrementalTranslationService dg fc pc =
     \<lparr> contentfulMetadataService = False, deepReferenceTracker = None,
       cds_deepReferenceTracker = None, trackerDigest = dg, trackerFieldChanges = fc,
       parentFieldChanges = pc \<rparr>"

definition initialize :: "incrementalService \<Rightarrow> incrementalService" where
  "initialize svc = svc\<lparr> contentfulMetadataService := True \<rparr>"

definition initializeDeepTrackingAsync ::
  "incrementalService \<Rightarrow> nat option \<Rightarrow> bool option \<Rightarrow> incrementalService" where
  "initializeDeepTrackingAsync svc optMaxDepth optAuto =
     svc\<lparr> cds_deepReferenceTracker :=
            Some (DeepReferenceTracker (trackerDigest svc) (trackerFieldChanges svc)
                    (Some (case optMaxDepth of Some d \<Rightarrow> if d \<noteq> 0 then d else 3 | None \<Rightarrow> 3))
                    (Some (optAuto \<noteq> Some False))) \<rparr>"

definition relationshipFilename :: "string \<Rightarrow> string \<Rightarrow> string" where
  "relationshipFilename sourceEntryId targetEntryId =
     sourceEntryId @ ''_'' @ targetEntryId @ ''.json''"

definition deepRefsFilename :: "string \<Rightarrow> string \<Rightarrow> string" where
  "deepRefsFilename sourceEntryId targetEntryId =
     sourceEntryId @ ''_'' @ targetEntryId @ ''_deep_refs.json''"

text \<open>The file branch of \<open>getRelationship\<close>: a tree snapshot, an unreadable file, and a
  record without \<open>metadata\<close> or with a falsy \<open>lastTranslatedVersion\<close> all read as null.\<close>

definition readRelationshipFile :: "fileData \<Rightarrow> relationship option" where
  "readRelationshipFile fd =
     (case fd of
        Unparseable \<Rightarrow> None
      | DeepRefsFile dm \<Rightarrow> None
      | RelationshipFile data \<Rightarrow>
          (case r_metadata data of
             None \<Rightarrow> None
           | Some m \<Rightarrow>
               (case lastTranslatedVersion m of
                  None \<Rightarrow> None
                | Some v \<Rightarrow> if v = 0 then None else Some data)))"

definition getRelationship ::
  "incrementalService \<Rightarrow> world \<Rightarrow> string \<Rightarrow> string \<Rightarrow> relationship option" where
  "getRelationship svc w sourceEntryId targetEntryId =
     (case (if contentfulMetadataService svc
            then getRelationshipMetadata w sourceEntryId targetEntryId else None) of
        Some data \<Rightarrow> Some data
      | None \<Rightarrow>
          (case files w (relationshipFilename sourceEntryId targetEntryId) of
             None \<Rightarrow> None
           | Some fd \<Rightarrow> readRelationshipFile fd))"

text \<open>\<open>createOrUpdateRelationship\<close>; \<open>now\<close> is the time of the call.\<close>

definition existingCreatedAt :: "fileData \<Rightarrow> error + string option" where
  "existingCreatedAt fd =
     (case fd of
        Unparseable \<Rightarrow> Inl (Error ''Unexpected token'')
      | DeepRefsFile dm \<Rightarrow> Inl (Error ''Cannot read properties of undefined'')
      | RelationshipFile existingData \<Rightarrow>
          (case r_metadata existingData of
             None \<Rightarrow> Inl (Error ''Cannot read properties of undefined'')
           | Some m \<Rightarrow> Inr (createdAt m)))"

definition createOrUpdateRelationship ::
  "incrementalService \<Rightarrow> world \<Rightarrow> string \<Rightarrow> string \<Rightarrow> string \<Rightarrow> int \<Rightarrow> translationContext \<Rightarrow>
   (string \<times> string) list \<Rightarrow> (string \<times> string) list \<Rightarrow> world" where
  "createOrUpdateRelationship svc w now sourceEntryId targetEntryId version ctx hashes mapping =
     (let relationshipData =
            \<lparr> r_sourceEntryId = sourceEntryId, r_targetEntryId = targetEntryId,
              r_metadata = Some \<lparr> lastTranslatedVersion = Some version, lastUpdated = now,
                                   createdAt = Some now \<rparr>,
              r_translationContext = ctx, r_fieldHashes = hashes, r_cloneMapping = mapping,
              r_deepReferenceMap = None, r_backupData = None \<rparr>;
          filename = relationshipFilename sourceEntryId targetEntryId;
          toFile =
            (let data' =
                   (case files w filename of
                      None \<Rightarrow> relationshipData
                    | Some fd \<Rightarrow>
                        (case existingCreatedAt fd of
                           Inl e \<Rightarrow> relationshipData
                         | Inr c \<Rightarrow>
                             relationshipData\<lparr> r_metadata :=
                               Some \<lparr> lastTranslatedVersion = Some version, lastUpdated = now,
                                      createdAt = c \<rparr> \<rparr>))
             in w\<lparr> files := (files w)(filename := Some (RelationshipFile data')) \<rparr>)
      in if contentfulMetadataService svc then
           (case storeRelationshipMetadata w sourceEntryId targetEntryId relationshipData of
              Inr w' \<Rightarrow> w'
            | Inl e \<Rightarrow> toFile)
         else toFile)"

subsection \<open>The tracker's use of the store\<close>

definition storeDeepReferenceMap ::
  "incrementalService \<Rightarrow> world \<Rightarrow> string \<Rightarrow> string \<Rightarrow> string \<Rightarrow> deepMap \<Rightarrow> world" where
  "storeDeepReferenceMap svc w now sourceEntryId targetEntryId dm =
     (let toFile = w\<lparr> files := (files w)(deepRefsFilename sourceEntryId targetEntryId :=
                                            Some (DeepRefsFile dm)) \<rparr>
      in if contentfulMetadataService svc then
           (case cms_storeDeepReferenceMap w now sourceEntryId targetEntryId dm of
              Inr w' \<Rightarrow> w'
            | Inl e \<Rightarrow> toFile)
         else toFile)"

text \<open>\<open>getStoredDeepReferenceMap\<close>: from the repository if it has a map, else whatever the
  file parses to.\<close>

definition getStoredDeepReferenceMap ::
  "incrementalService \<Rightarrow> world \<Rightarrow> string \<Rightarrow> string \<Rightarrow> fileData option" where
  "getStoredDeepReferenceMap svc w sourceEntryId targetEntryId =
     (case (if contentfulMetadataService svc
            then getDeepReferenceMap w sourceEntryId targetEntryId else None) of
        Some dm \<Rightarrow> Some (DeepRefsFile dm)
      | None \<Rightarrow>
          (case files w (deepRefsFilename sourceEntryId targetEntryId) of
             None \<Rightarrow> None
           | Some Unparseable \<Rightarrow> None
           | Some fd \<Rightarrow> Some fd))"

text \<open>\<open>detectDeepReferenceChanges\<close>: the stored map is written only when there was none.\<close>

definition detectDeepReferenceChanges ::
  "tracker \<Rightarrow> incrementalService \<Rightarrow> world \<Rightarrow> string \<Rightarrow> string \<Rightarrow> string \<Rightarrow>
   world \<times> (error + changes)" where
  "detectDeepReferenceChanges t svc w now sourceEntryId targetEntryId =
     (let storedMap = getStoredDeepReferenceMap svc w sourceEntryId targetEntryId
      in case buildCurrentReferenceMapForComparison t (entries w) now sourceEntryId targetEntryId of
           Inl e \<Rightarrow> (w, Inl e)
         | Inr currentMap \<Rightarrow>
             (case storedMap of
                None \<Rightarrow>
                  (storeDeepReferenceMap svc w now sourceEntryId targetEntryId currentMap,
                   Inr (allNew t sourceEntryId currentMap))
              | Some (DeepRefsFile stored) \<Rightarrow>
                  (w, Inr (compareMaps t sourceEntryId stored currentMap))
              | Some other \<Rightarrow> (w, Inl (Error ''Cannot convert undefined or null to object''))))"

definition updateStoredReferencesAfterProcessing ::
  "tracker \<Rightarrow> incrementalService \<Rightarrow> world \<Rightarrow> string \<Rightarrow> string \<Rightarrow> string \<Rightarrow> world" where
  "updateStoredReferencesAfterProcessing t svc w now sourceEntryId targetEntryId =
     (case buildCurrentReferenceMapForComparison t (entries w) now sourceEntryId targetEntryId of
        Inl e \<Rightarrow> w
      | Inr currentMap \<Rightarrow> storeDeepReferenceMap svc w now sourceEntryId targetEntryId currentMap)"

subsection \<open>The status check\<close>

datatype statusResult =
    NoRelationship
  | StatusError
  | Status (hasChanges: bool) (statusChanges: "json list")

text \<open>\<open>detectParentFieldChanges\<close>: the deep detection runs when the change detection
  service has a tracker; its failure is caught.\<close>

definition detectParentFieldChanges ::
  "incrementalService \<Rightarrow> world \<Rightarrow> string \<Rightarrow> entry \<Rightarrow> string \<Rightarrow> string \<Rightarrow> world \<times> json list"
where
  "detectParentFieldChanges svc w now sourceEntry sourceEntryId targetEntryId =
     (let rel = getRelationship svc w sourceEntryId targetEntryId
      in case cds_deepReferenceTracker svc of
           None \<Rightarrow> (w, parentFieldChanges svc sourceEntry rel None)
         | Some t \<Rightarrow>
             (case detectDeepReferenceChanges t svc w now sourceEntryId targetEntryId of
                (w', Inr deepChanges) \<Rightarrow>
                  (w', parentFieldChanges svc sourceEntry rel (Some deepChanges))
              | (w', Inl e) \<Rightarrow> (w', parentFieldChanges svc sourceEntry rel None)))"

text \<open>\<open>checkUpdateStatus\<close>. The refresh of the stored map at its end is guarded by the
  service's own \<open>deepReferenceTracker\<close> property.\<close>

definition checkUpdateStatus ::
  "incrementalService \<Rightarrow> world \<Rightarrow> string \<Rightarrow> string \<Rightarrow> string \<Rightarrow>
   incrementalService \<times> world \<times> statusResult" where
  "checkUpdateStatus svc w now sourceEntryId targetEntryId =
     (case getRelationship svc w sourceEntryId targetEntryId of
        None \<Rightarrow> (svc, w, NoRelationship)
      | Some relationship \<Rightarrow>
          (case entries w sourceEntryId of
             None \<Rightarrow> (svc, w, StatusError)
           | Some sourceEntry \<Rightarrow>
               (let svc1 = initializeDeepTrackingAsync svc (Some 3) (Some True);
                    (w1, chgs) = detectParentFieldChanges svc1 w now sourceEntry
                                   sourceEntryId targetEntryId;
                    w2 = (case deepReferenceTracker svc1 of
                            Some t \<Rightarrow> updateStoredReferencesAfterProcessing t svc1 w1 now
                                        sourceEntryId targetEntryId
                          | None \<Rightarrow> w1)
                in (svc1, w2, Status (chgs \<noteq> []) chgs))))"

subsection \<open>A repository with one page and one text element\<close>

definition pageX :: entry where
  "pageX = \<lparr> e_id = ''X'', e_version = 3, e_publishedVersion = None, e_contentType = ''cmsPage'',
             e_fields = [(''title'', JObj [(''en-US-POSIX'', JStr ''Willkommen'')]),
                         (''body'', JObj [(''en-US-POSIX'', JArr [entryLink ''E1''])])] \<rparr>"

definition textE1 :: entry where
  "textE1 = \<lparr> e_id = ''E1'', e_version = 1, e_publishedVersion = None, e_contentType = ''scText'',
              e_fields = [(''content'', JObj [(''en-US-POSIX'', JStr ''Mehr lesen'')])] \<rparr>"

definition pageEnv :: environment where
  "pageEnv i = (if i = ''X'' then Some pageX else if i = ''E1'' then Some textE1 else None)"

text \<open>A stand-in for the digest: the names of the hashed fields.\<close>

definition fieldNames :: "(string \<times> json) list \<Rightarrow> string" where
  "fieldNames fs = concat (map fst fs)"

definition exampleService :: incrementalService where
  "exampleService =
     initialize (ServerIncrementalTranslationService fieldNames (\<lambda>i s c. [])
       (\<lambda>e rel deep. case deep of
                         None \<Rightarrow> []
                       | Some c \<Rightarrow> map (\<lambda>r. JStr (cr_id r)) (changedReferences c) @
                                   map (\<lambda>r. JStr (nr_id r)) (newReferences c) @
                                   map JStr (removedReferences c)))"

text \<open>The relationship of \<open>X\<close> and its clone as the first clone leaves it in the
  repository at time \<open>t0\<close>, the tree snapshot included.\<close>

definition storedMapX :: deepMap where
  "storedMapX =
     \<lparr> dm_sourceEntryId = ''X'', dm_targetEntryId = ''X2'', dm_maxDepth = 3,
       dm_lastScanned = ''t0'',
       dm_referenceTree =
         RefNode ''X'' 3 0 None None ''title'' ''t0''
           [RefNode ''E1'' 1 1 (Some ''X'') (Some ''body'') ''content'' ''t0'' []],
       dm_flattenedRefs =
         [(''X'', RefNode ''X'' 3 0 None None ''title'' ''t0'' []),
          (''E1'', RefNode ''E1'' 1 1 (Some ''X'') (Some ''body'') ''content'' ''t0'' [])] \<rparr>"

definition relationshipX :: relationship where
  "relationshipX =
     \<lparr> r_sourceEntryId = ''X'', r_targetEntryId = ''X2'',
       r_metadata = Some \<lparr> lastTranslatedVersion = Some 3, lastUpdated = ''t0'',
                            createdAt = Some ''t0'' \<rparr>,
       r_translationContext = \<lparr> ctx_sourceLanguage = ''DE'', ctx_targetLanguage = ''IT'' \<rparr>,
       r_fieldHashes = [(''title'', ''h1'')], r_cloneMapping = [(''Entry:X'', ''X2'')],
       r_deepReferenceMap = Some storedMapX, r_backupData = None \<rparr>"

definition worldX :: world where
  "worldX = \<lparr> metaEntries = [(''X_X2'', relationshipX)], getEntries_ok = True,
              getEntry_ok = True, update_ok = True, createEntry_ok = True,
              files = (\<lambda>f. None), entries = pageEnv \<rparr>"


section \<open>Markdown translation\<close>

text \<open>
  One match of the pattern \<open>!\[([^\]]*)\]\(([^)]+)\)\<close> at the start of a text: the caption
  runs to the first closing bracket, which an opening parenthesis must follow, and the url
  is the non-empty run up to the first closing parenthesis. The result is the caption, the
  url and the text after the match.
\<close>

definition matchImage :: "string \<Rightarrow> (string \<times> string \<times> string) option" where
  "matchImage s =
     (case s of
        c1 # c2 # s1 \<Rightarrow>
          if c1 = CHR ''!'' \<and> c2 = CHR ''['' then
            (case dropWhile (\<lambda>c. c \<noteq> CHR '']'') s1 of
               d1 # d2 # s3 \<Rightarrow>
                 if d2 = CHR ''('' then
                   (let url = takeWhile (\<lambda>c. c \<noteq> CHR '')'') s3;
                        s4 = dropWhile (\<lambda>c. c \<noteq> CHR '')'') s3
                    in if url \<noteq> [] \<and> s4 \<noteq> []
                       then Some (takeWhile (\<lambda>c. c \<noteq> CHR '']'') s1, url, tl s4)
                       else None)
                 else None
             | _ \<Rightarrow> None)
          else None
      | _ \<Rightarrow> None)"

record image =
  caption :: string
  url :: string
  fullMatch :: string

definition placeholder :: "nat \<Rightarrow> string" where
  "placeholder n = ''IMG_PLACEHOLDER_'' @ decimal n"

text \<open>
  The global replace that protects the image blocks: \<open>imageCounter\<close> is the number of
  blocks seen so far; the result is the text with placeholders and the entries of
  \<open>imageMap\<close> in insertion order.
\<close>

function protectImages :: "nat \<Rightarrow> string \<Rightarrow> string \<times> (string \<times> image) list" where
  "protectImages imageCounter [] = ([], [])"
| "protectImages imageCounter (c # s) =
     (case matchImage (c # s) of
        Some (cap, u, rest) \<Rightarrow>
          (let token = placeholder (Suc imageCounter);
               (out, imgs) = protectImages (Suc imageCounter) rest
           in (token @ out,
               (token, \<lparr> caption = cap, url = u,
                         fullMatch = take (length (c # s) - length rest) (c # s) \<rparr>) # imgs))
      | None \<Rightarrow>
          (let (out, imgs) = protectImages imageCounter s in (c # out, imgs)))"
  by pat_completeness auto
termination
proof (relation "measure (\<lambda>(n, s). length s)")
  show "wf (measure (\<lambda>(n, s). length s))" by simp
next
  fix imageCounter :: nat and c :: char and s x2 cap y u rest
  assume "matchImage (c # s) = Some x2" "(cap, y) = x2" "(u, rest) = y"
  then have m: "matchImage (c # s) = Some (cap, u, rest)" by simp
  have "length rest < length (c # s)"
  proof -
    from m obtain s1 d1 s3 where
      s: "c # s = CHR ''!'' # CHR ''['' # s1"
      and d: "dropWhile (\<lambda>c. c \<noteq> CHR '']'') s1 = d1 # CHR ''('' # s3"
      and r: "rest = tl (dropWhile (\<lambda>c. c \<noteq> CHR '')'') s3)"
      by (auto simp: matchImage_def Let_def split: list.splits if_splits)
    have "length rest \<le> length s3"
      using length_dropWhile_le[of "\<lambda>c. c \<noteq> CHR '')''" s3] unfolding r by simp
    moreover have "length s3 < length s1"
      using length_dropWhile_le[of "\<lambda>c. c \<noteq> CHR '']''" s1] d by simp
    ultimately show ?thesis using s by simp
  qed
  then show "((Suc imageCounter, rest), imageCounter, c # s) \<in> measure (\<lambda>(n, s). length s)"
    by simp
next
  fix imageCounter :: nat and c :: char and s
  show "((imageCounter, s), imageCounter, c # s) \<in> measure (\<lambda>(n, s). length s)"
    by simp
qed

text \<open>
  \<open>String.prototype.replace\<close> with a string pattern and a string replacement: the first
  occurrence of the pattern is replaced, and in the replacement \<open>$$\<close> stands for a dollar
  sign, \<open>$&\<close> for the matched text, \<open>$`\<close> for the text before the match and \<open>$'\<close> for the
  text after it.
\<close>

fun expandReplacement :: "string \<Rightarrow> string \<Rightarrow> string \<Rightarrow> string \<Rightarrow> string" where
  "expandReplacement bef matched aft [] = []"
| "expandReplacement bef matched aft [c] = [c]"
| "expandReplacement bef matched aft (c # d # r) =
     (if c = CHR ''$'' \<and> d = CHR ''$'' then CHR ''$'' # expandReplacement bef matched aft r
      else if c = CHR ''$'' \<and> d = CHR ''&'' then matched @ expandReplacement bef matched aft r
      else if c = CHR ''$'' \<and> d = CHR 0x60 then bef @ expandReplacement bef matched aft r
      else if c = CHR ''$'' \<and> d = CHR 0x27 then aft @ expandReplacement bef matched aft r
      else c # expandReplacement bef matched aft (d # r))"

fun splitFirst :: "string \<Rightarrow> string \<Rightarrow> (string \<times> string) option" where
  "splitFirst pat [] = (if pat = [] then Some ([], []) else None)"
| "splitFirst pat (c # s) =
     (if startsWith (c # s) pat then Some ([], drop (length pat) (c # s))
      else map_option (\<lambda>p. (c # fst p, snd p)) (splitFirst pat s))"

definition js_replace :: "string \<Rightarrow> string \<Rightarrow> string \<Rightarrow> string" where
  "js_replace s pat replacement =
     (case splitFirst pat s of
        None \<Rightarrow> s
      | Some (bef, aft) \<Rightarrow> bef @ expandReplacement bef pat aft replacement @ aft)"

text \<open>The loop that restores the images: a caption that cannot be translated puts the
  original block back.\<close>

fun restoreImages ::
  "translator \<Rightarrow> string \<Rightarrow> string \<Rightarrow> (string \<times> image) list \<Rightarrow> string \<Rightarrow> string" where
  "restoreImages tr sourceLang targetLang [] finalResult = finalResult"
| "restoreImages tr sourceLang targetLang ((token, imageData) # imgs) finalResult =
     restoreImages tr sourceLang targetLang imgs
       (case tr (caption imageData) sourceLang targetLang
               (Some \<lparr> preserveFormatting = True, tagHandling = None \<rparr>) of
          Inr translatedCaption \<Rightarrow>
            js_replace finalResult token
              (''!['' @ translatedCaption @ '']('' @ url imageData @ '')'')
        | Inl e \<Rightarrow> js_replace finalResult token (fullMatch imageData))"

definition translateMarkdownContent :: "cloneService \<Rightarrow> string \<Rightarrow> string \<Rightarrow> string" where
  "translateMarkdownContent svc content sourceLang =
     (case translator svc of
        None \<Rightarrow> content
      | Some tr \<Rightarrow>
          if \<not> enabled (translationCfg svc) then content
          else
            (let (processedContent, imageMap) = protectImages 0 content
             in case tr processedContent sourceLang (targetLanguage (translationCfg svc))
                       (Some \<lparr> preserveFormatting = True, tagHandling = Some ''xml'' \<rparr>) of
                  Inl e \<Rightarrow> content
                | Inr result \<Rightarrow>
                    restoreImages tr sourceLang (targetLanguage (translationCfg svc))
                      imageMap result))"

text \<open>\<open>translateBulletList\<close>: element by element.\<close>

definition translateBulletList :: "cloneService \<Rightarrow> string list \<Rightarrow> string \<Rightarrow> string list" where
  "translateBulletList svc bulletList sourceLang =
     map (\<lambda>bullet. translateMarkdownContent svc bullet sourceLang) bulletList"

text \<open>A translator that answers with the text it was given, and one that does so only
  for requests with tag handling, failing on the others (the captions).\<close>

definition echoTranslator :: translator where
  "echoTranslator t s g opts = Inr t"

definition bodyOnlyTranslator :: translator where
  "bodyOnlyTranslator t s g opts =
     (case opts of
        Some opt \<Rightarrow>
          if tagHandling opt \<noteq> None then Inr t else Inl (Error ''Service unavailable'')
      | None \<Rightarrow> Inl (Error ''Service unavailable''))"

section \<open>The recursive clone\<close>

subsection \<open>Field classification\<close>

definition toLowerCase :: "string \<Rightarrow> string" where
  "toLowerCase s =
     map (\<lambda>c. if 65 \<le> (of_char c :: nat) \<and> (of_char c :: nat) \<le> 90
               then char_of ((of_char c :: nat) + 32) else c) s"

definition toUpperCase :: "string \<Rightarrow> string" where
  "toUpperCase s =
     map (\<lambda>c. if 97 \<le> (of_char c :: nat) \<and> (of_char c :: nat) \<le> 122
               then char_of ((of_char c :: nat) - 32) else c) s"

fun js_includes :: "string \<Rightarrow> string \<Rightarrow> bool" where
  "js_includes [] p = (p = [])"
| "js_includes (c # s) p = (startsWith (c # s) p \<or> js_includes s p)"

definition isCultureField :: "cloneService \<Rightarrow> string \<Rightarrow> bool" where
  "isCultureField svc fieldId =
     list_ex (\<lambda>cultureName. js_includes (toLowerCase fieldId) (toLowerCase cultureName))
       (cultureFieldNames svc)"

definition cultureMapping :: "(string \<times> string) list" where
  "cultureMapping =
     [(''EN'', ''en-GB''), (''DE'', ''de-DE''), (''FR'', ''fr-FR''), (''IT'', ''it-IT''),
      (''ES'', ''es-ES''), (''NL'', ''nl-NL''), (''PT'', ''pt-PT''), (''RU'', ''ru-RU''),
      (''BG'', ''bg-BG''), (''CS'', ''cs-CZ''), (''HR'', ''hr-HR''), (''HU'', ''hu-HU''),
      (''PL'', ''pl-PL''), (''RO'', ''ro-RO''), (''SV'', ''sv-SE''), (''TR'', ''tr-TR''),
      (''UK'', ''uk-UA''), (''CA'', ''en-CA''), (''FR-CA'', ''fr-CA''), (''FR-BE'', ''fr-BE''),
      (''NL-BE'', ''nl-BE''), (''FR-LU'', ''fr-LU''), (''DE-AT'', ''de-AT'')]"

definition getCultureValue :: "cloneService \<Rightarrow> string option" where
  "getCultureValue svc = map_of cultureMapping (toUpperCase (targetLanguage (translationCfg svc)))"

definition markdownFieldMappings :: "(string \<times> string list) list" where
  "markdownFieldMappings =
     [(''author'', [''bio'']), (''cmsPage'', [''teaserText'']),
      (''evmodelfinder'', [''additional_information'']), (''questionAnswer'', [''answerLong'']),
      (''infobox'', [''text'']), (''scSuperhero'', [''text'', ''bulletList'']),
      (''scBenefit'', [''text'']), (''scMediaSection'', [''text'', ''bulletList'']),
      (''scTeaser'', [''text'']), (''scText'', [''content'']),
      (''tierPricingTableCell'', [''content'', ''tooltipText'']),
      (''tierPricingPlanTableSection'', [''tooltipText'']),
      (''tierPricingPlan'', [''description''])]"

definition isMarkdownField :: "string \<Rightarrow> string \<Rightarrow> bool" where
  "isMarkdownField contentTypeId fieldId =
     (case map_of markdownFieldMappings contentTypeId of
        Some contentTypeFields \<Rightarrow> fieldId \<in> set contentTypeFields
      | None \<Rightarrow> False)"

definition localeMapping :: "(string \<times> string) list" where
  "localeMapping =
     [(''de-DE'', ''DE''), (''de-AT'', ''DE''), (''en-GB'', ''EN-GB''), (''en-US'', ''EN-US''),
      (''en-CA'', ''EN-US''), (''fr-FR'', ''FR''), (''fr-BE'', ''FR''), (''fr-CA'', ''FR''),
      (''fr-LU'', ''FR''), (''it-IT'', ''IT''), (''es-ES'', ''ES''), (''nl-NL'', ''NL''),
      (''nl-BE'', ''NL''), (''pt-PT'', ''PT-PT''), (''pt-BR'', ''PT-BR''), (''ru-RU'', ''RU''),
      (''ja-JP'', ''JA''), (''zh-CN'', ''ZH''), (''pl-PL'', ''PL''), (''sv-SE'', ''SV''),
      (''da-DK'', ''DA''), (''fi-FI'', ''FI''), (''no-NO'', ''NB''), (''cs-CZ'', ''CS''),
      (''et-EE'', ''ET''), (''lv-LV'', ''LV''), (''lt-LT'', ''LT''), (''sk-SK'', ''SK''),
      (''sl-SI'', ''SL''), (''bg-BG'', ''BG''), (''hu-HU'', ''HU''), (''ro-RO'', ''RO''),
      (''uk-UA'', ''UK''), (''tr-TR'', ''TR'')]"

definition mapContentfulLocaleToDeepLLanguage :: "string \<Rightarrow> string option" where
  "mapContentfulLocaleToDeepLLanguage contentfulLocale = map_of localeMapping contentfulLocale"

fun detectSourceLocale :: "string list \<Rightarrow> (string \<times> json) list \<Rightarrow> string option" where
  "detectSourceLocale [] entryFields = None"
| "detectSourceLocale (cultureFieldName # names) entryFields =
     (let cultureField = jget (JObj entryFields) cultureFieldName
      in if truthy cultureField then
           (case object_values cultureField of
              JStr contentfulLocale # vs \<Rightarrow> mapContentfulLocaleToDeepLLanguage contentfulLocale
            | _ \<Rightarrow> detectSourceLocale names entryFields)
         else detectSourceLocale names entryFields)"

definition detectSourceLocaleFromEntry :: "cloneService \<Rightarrow> (string \<times> json) list \<Rightarrow> string option"
where
  "detectSourceLocaleFromEntry svc entryFields =
     detectSourceLocale (cultureFieldNames svc) entryFields"

definition findPrefixFields ::
  "cloneService \<Rightarrow> fieldDef list \<Rightarrow> (string \<times> json) list \<Rightarrow> string list" where
  "findPrefixFields svc contentTypeFields entryFields =
     concat (map (\<lambda>targetField.
        case find (\<lambda>field. toLowerCase (fd_id field) = toLowerCase targetField)
               contentTypeFields of
          None \<Rightarrow> []
        | Some fieldDef \<Rightarrow>
            if fd_type fieldDef \<in> set (fieldTypes (prefixCfg svc)) \<and>
               truthy (jget (JObj entryFields) (fd_id fieldDef))
            then [fd_id fieldDef] else [])
       (targetFields (prefixCfg svc)))"

definition shouldPrefixField :: "string \<Rightarrow> string list \<Rightarrow> bool" where
  "shouldPrefixField fieldId prefixFieldIds = (fieldId \<in> set prefixFieldIds)"

text \<open>
  What the loop over the locales of a normally processed field does to a value once its
  links are processed: prefix, culture, markdown, text translation.
\<close>

definition finishValue ::
  "cloneService \<Rightarrow> string \<Rightarrow> fieldDef \<Rightarrow> string list \<Rightarrow> string option \<Rightarrow> json \<Rightarrow> json" where
  "finishValue svc contentTypeId fieldDef prefixFieldIds detectedSourceLanguage processed =
     (let fieldId = fd_id fieldDef;
          prefixed = (case processed of
                        JStr s \<Rightarrow> if shouldPrefixField fieldId prefixFieldIds
                                  then JStr (clonePrefix svc @ s) else processed
                      | _ \<Rightarrow> processed);
          detected = (case detectedSourceLanguage of Some l \<Rightarrow> l | None \<Rightarrow> '''')
      in if isCultureField svc fieldId then
           (case getCultureValue svc of Some cultureValue \<Rightarrow> JStr cultureValue | None \<Rightarrow> prefixed)
         else if isMarkdownField contentTypeId fieldId \<and> detected \<noteq> [] then
           (case prefixed of
              JArr bullets \<Rightarrow>
                if fieldId = ''bulletList''
                then JArr (map (\<lambda>bullet. case bullet of
                                   JStr b \<Rightarrow> JStr (translateMarkdownContent svc b detected)
                                 | other \<Rightarrow> other) bullets)
                else prefixed
            | JStr s \<Rightarrow> JStr (translateMarkdownContent svc s detected)
            | _ \<Rightarrow> prefixed)
         else (case prefixed of
                 JStr s \<Rightarrow>
                   if \<not> isMarkdownField contentTypeId fieldId
                   then JStr (translateText svc s (fd_type fieldDef) detectedSourceLanguage)
                   else prefixed
               | _ \<Rightarrow> prefixed))"

subsection \<open>State of a run and the repository it works on\<close>

text \<open>An entry created by the run; \<open>ce_source\<close> records the id of the source entry it was
  cloned from.\<close>

record createdEntry =
  ce_id :: string
  ce_contentType :: string
  ce_fields :: "(string \<times> json) list"
  ce_source :: string

record cloneState =
  cloneMap :: "(string \<times> string) list"
  processingSet :: "string list"
  createdEntries :: "createdEntry list"

text \<open>
  The repository as the clone uses it: \<open>getEntry\<close>, \<open>getContentType\<close> (the ordered field
  definitions), \<open>createEntry\<close> (the id of the new entry, given how many entries the run has
  created; \<open>None\<close> when the repository rejects the entry), and the query of
  \<open>findExistingAuthor\<close>.
\<close>

record repository =
  repo_getEntry :: environment
  repo_getContentType :: "string \<Rightarrow> fieldDef list option"
  repo_createEntry :: "nat \<Rightarrow> string \<Rightarrow> (string \<times> json) list \<Rightarrow> string option"
  repo_findExistingAuthor :: "entry \<Rightarrow> string \<Rightarrow> string option"

text \<open>The result of a call: it ran out of fuel, it threw (with the state at that moment),
  or it returned.\<close>

datatype 'a outcome = OutOfFuel | Threw cloneState error | Returned cloneState 'a

text \<open>A value in a template literal.\<close>

definition templ :: "json \<Rightarrow> string" where
  "templ v =
     (case v of
        JStr s \<Rightarrow> s
      | JUndefined \<Rightarrow> ''undefined''
      | JNull \<Rightarrow> ''null''
      | JBool b \<Rightarrow> (if b then ''true'' else ''false'')
      | JNum n \<Rightarrow> (if n < 0 then ''-'' @ decimal (nat (- n)) else decimal (nat n))
      | JArr xs \<Rightarrow> ''''
      | JObj kvs \<Rightarrow> ''[object Object]'')"

definition mkLink :: "json \<Rightarrow> string \<Rightarrow> json" where
  "mkLink linkType i =
     JObj [(''sys'', JObj [(''type'', JStr ''Link''), (''linkType'', linkType), (''id'', JStr i)])]"

definition addProcessing :: "string \<Rightarrow> cloneState \<Rightarrow> cloneState" where
  "addProcessing key st =
     st\<lparr> processingSet := (if key \<in> set (processingSet st) then processingSet st
                            else processingSet st @ [key]) \<rparr>"

definition deleteProcessing :: "string \<Rightarrow> cloneState \<Rightarrow> cloneState" where
  "deleteProcessing key st = st\<lparr> processingSet := removeAll key (processingSet st) \<rparr>"

definition setCloneMap :: "string \<Rightarrow> string \<Rightarrow> cloneState \<Rightarrow> cloneState" where
  "setCloneMap key v st = st\<lparr> cloneMap := assign key v (cloneMap st) \<rparr>"

text \<open>The author special case of \<open>processLinkField\<close>, up to the decision it reaches.\<close>

datatype authorLookup = AuthorThrew | AuthorFound string | AuthorNotFound

definition lookupAuthor :: "cloneService \<Rightarrow> repository \<Rightarrow> string \<Rightarrow> json \<Rightarrow> authorLookup" where
  "lookupAuthor svc repo fieldId i =
     (if fieldId \<noteq> [] \<and> isAuthorField svc fieldId then
        (case (case i of JStr s \<Rightarrow> repo_getEntry repo s | _ \<Rightarrow> None) of
           None \<Rightarrow> AuthorThrew
         | Some originalAuthor \<Rightarrow>
             if e_contentType originalAuthor = ''author'' then
               (case getCultureValue svc of
                  None \<Rightarrow> AuthorNotFound
                | Some targetCulture \<Rightarrow>
                    (case repo_findExistingAuthor repo originalAuthor targetCulture of
                       Some existingAuthorId \<Rightarrow>
                         if existingAuthorId \<noteq> [] then AuthorFound existingAuthorId
                         else AuthorNotFound
                     | None \<Rightarrow> AuthorNotFound))
             else AuthorNotFound)
      else AuthorNotFound)"

subsection \<open>The mutually recursive clone functions\<close>

text \<open>
  \<open>cloneEntryRecursive\<close>, its loop over the field definitions, the loop over the locales of
  one field, \<open>processFieldValue\<close>, its loop over an array, and \<open>processLinkField\<close>. The first
  argument bounds the nesting of \<open>cloneEntryRecursive\<close> calls.
\<close>

function (sequential) cloneEntryRecursive ::
      "nat \<Rightarrow> cloneService \<Rightarrow> repository \<Rightarrow> string \<Rightarrow> cloneState \<Rightarrow> entry \<Rightarrow> string \<Rightarrow> string outcome"
  and processFields ::
      "nat \<Rightarrow> cloneService \<Rightarrow> repository \<Rightarrow> string \<Rightarrow> cloneState \<Rightarrow> entry \<Rightarrow> string \<Rightarrow>
       string option \<Rightarrow> string list \<Rightarrow> fieldDef list \<Rightarrow> (string \<times> json) list outcome"
  and processLocales ::
      "nat \<Rightarrow> cloneService \<Rightarrow> repository \<Rightarrow> string \<Rightarrow> cloneState \<Rightarrow> string \<Rightarrow> (json \<Rightarrow> json) \<Rightarrow>
       (string \<times> json) list \<Rightarrow> (string \<times> json) list outcome"
  and processFieldValue ::
      "nat \<Rightarrow> cloneService \<Rightarrow> repository \<Rightarrow> string \<Rightarrow> cloneState \<Rightarrow> json \<Rightarrow> string \<Rightarrow> string \<Rightarrow>
       json outcome"
  and processArray ::
      "nat \<Rightarrow> cloneService \<Rightarrow> repository \<Rightarrow> string \<Rightarrow> cloneState \<Rightarrow> json list \<Rightarrow> string \<Rightarrow> string \<Rightarrow>
       json list outcome"
  and processLinkField ::
      "nat \<Rightarrow> cloneService \<Rightarrow> repository \<Rightarrow> string \<Rightarrow> cloneState \<Rightarrow> json \<Rightarrow> string \<Rightarrow> string \<Rightarrow>
       json outcome"
where
  "cloneEntryRecursive 0 svc repo now st sourceEntry locale = OutOfFuel"
| "cloneEntryRecursive (Suc n) svc repo now st sourceEntry locale =
     (let key = ''Entry:'' @ e_id sourceEntry
      in case map_of (cloneMap st) key of
           Some mapped \<Rightarrow> Returned st mapped
         | None \<Rightarrow>
             (case repo_getContentType repo (e_contentType sourceEntry) of
                None \<Rightarrow> Threw st (Error ''The resource could not be found.'')
              | Some contentTypeFields \<Rightarrow>
                  (let detectedSourceLanguage =
                         (if e_contentType sourceEntry = ''cmsPage''
                          then detectSourceLocaleFromEntry svc (e_fields sourceEntry)
                          else mainCmsPageSourceLanguage svc);
                       prefixFieldIds =
                         findPrefixFields svc contentTypeFields (e_fields sourceEntry)
                   in case processFields n svc repo now st sourceEntry locale
                             detectedSourceLanguage prefixFieldIds contentTypeFields of
                        OutOfFuel \<Rightarrow> OutOfFuel
                      | Threw st1 e \<Rightarrow> Threw st1 e
                      | Returned st1 newFields \<Rightarrow>
                          (case repo_createEntry repo (length (createdEntries st1))
                                  (e_contentType sourceEntry) newFields of
                             None \<Rightarrow> Threw st1 (Error ''Validation error'')
                           | Some newId \<Rightarrow>
                               Returned
                                 (setCloneMap key newId
                                    (st1\<lparr> createdEntries := createdEntries st1 @
                                       [\<lparr> ce_id = newId,
                                          ce_contentType = e_contentType sourceEntry,
                                          ce_fields = newFields,
                                          ce_source = e_id sourceEntry \<rparr>] \<rparr>))
                                 newId))))"
| "processFields n svc repo now st sourceEntry locale detected prefixFieldIds [] =
     Returned st []"
| "processFields n svc repo now st sourceEntry locale detected prefixFieldIds
     (fieldDef # fieldDefs) =
     (let fieldId = fd_id fieldDef;
          originalFieldValue = jget (JObj (e_fields sourceEntry)) fieldId;
          field =
            (if truthy originalFieldValue then
               (if shouldEmptyField svc fieldId
                then Returned st (getEmptyValueForField fieldDef locale)
                else
                  (case processLocales n svc repo now st fieldId
                          (if shouldCopyAsIs svc fieldId \<or> isAuthorField svc fieldId
                           then (\<lambda>v. v)
                           else finishValue svc (e_contentType sourceEntry) fieldDef
                                  prefixFieldIds detected)
                          (object_entries originalFieldValue) of
                     OutOfFuel \<Rightarrow> OutOfFuel
                   | Threw st1 e \<Rightarrow> Threw st1 e
                   | Returned st1 processedField \<Rightarrow> Returned st1 (Some (JObj processedField))))
             else Returned st (missingFieldValue svc now fieldDef locale))
      in case field of
           OutOfFuel \<Rightarrow> OutOfFuel
         | Threw st1 e \<Rightarrow> Threw st1 e
         | Returned st1 v \<Rightarrow>
             (case processFields n svc repo now st1 sourceEntry locale detected
                     prefixFieldIds fieldDefs of
                OutOfFuel \<Rightarrow> OutOfFuel
              | Threw st2 e \<Rightarrow> Threw st2 e
              | Returned st2 newFields \<Rightarrow>
                  Returned st2 (case v of Some x \<Rightarrow> (fieldId, x) # newFields | None \<Rightarrow> newFields)))"
| "processLocales n svc repo now st fieldId finish [] = Returned st []"
| "processLocales n svc repo now st fieldId finish (lv # rest) =
     (case processFieldValue n svc repo now st (snd lv) (fst lv) fieldId of
        OutOfFuel \<Rightarrow> OutOfFuel
      | Threw st1 e \<Rightarrow> Threw st1 e
      | Returned st1 processedValue \<Rightarrow>
          (case processLocales n svc repo now st1 fieldId finish rest of
             OutOfFuel \<Rightarrow> OutOfFuel
           | Threw st2 e \<Rightarrow> Threw st2 e
           | Returned st2 processedField \<Rightarrow>
               Returned st2 ((fst lv, finish processedValue) # processedField)))"
| "processFieldValue n svc repo now st (JArr items) locale fieldId =
     (case processArray n svc repo now st items locale fieldId of
        OutOfFuel \<Rightarrow> OutOfFuel
      | Threw st1 e \<Rightarrow> Threw st1 e
      | Returned st1 processedArray \<Rightarrow> Returned st1 (JArr processedArray))"
| "processFieldValue n svc repo now st v locale fieldId =
     (if isLink v then processLinkField n svc repo now st v locale fieldId
      else Returned st v)"
| "processArray n svc repo now st [] locale fieldId = Returned st []"
| "processArray n svc repo now st (item # items) locale fieldId =
     (case (if isLink item then processLinkField n svc repo now st item locale fieldId
            else processFieldValue n svc repo now st item locale fieldId) of
        OutOfFuel \<Rightarrow> OutOfFuel
      | Threw st1 e \<Rightarrow> Threw st1 e
      | Returned st1 processed \<Rightarrow>
          (case processArray n svc repo now st1 items locale fieldId of
             OutOfFuel \<Rightarrow> OutOfFuel
           | Threw st2 e \<Rightarrow> Threw st2 e
           | Returned st2 processedArray \<Rightarrow>
               Returned st2 (if isLink item \<and> processed = JNull then processedArray
                             else processed # processedArray)))"
| "processLinkField n svc repo now st linkValue locale fieldId =
     (if \<not> truthy linkValue \<or> \<not> truthy (jget linkValue ''sys'') then Returned st linkValue
      else
        (let linkType = jget (jget linkValue ''sys'') ''linkType'';
             i = jget (jget linkValue ''sys'') ''id'';
             key = templ linkType @ '':'' @ templ i
         in case map_of (cloneMap st) key of
              Some mapped \<Rightarrow> Returned st (mkLink linkType mapped)
            | None \<Rightarrow>
                if key \<in> set (processingSet st) then Returned st linkValue
                else
                  (let st0 = addProcessing key st
                   in if linkType = JStr ''Entry'' then
                        (case lookupAuthor svc repo fieldId i of
                           AuthorThrew \<Rightarrow> Returned (deleteProcessing key st0) linkValue
                         | AuthorFound existingAuthorId \<Rightarrow>
                             Returned (deleteProcessing key (setCloneMap key existingAuthorId st0))
                               (mkLink (JStr ''Entry'') existingAuthorId)
                         | AuthorNotFound \<Rightarrow>
                             (case (case i of JStr s \<Rightarrow> repo_getEntry repo s | _ \<Rightarrow> None) of
                                None \<Rightarrow> Returned (deleteProcessing key st0) linkValue
                              | Some sourceEntry \<Rightarrow>
                                  (case cloneEntryRecursive n svc repo now st0 sourceEntry
                                          locale of
                                     OutOfFuel \<Rightarrow> OutOfFuel
                                   | Threw st1 e \<Rightarrow>
                                       Returned (deleteProcessing key st1) linkValue
                                   | Returned st1 clonedEntryId \<Rightarrow>
                                       Returned (deleteProcessing key st1)
                                         (mkLink (JStr ''Entry'') clonedEntryId))))
                      else if linkType = JStr ''Asset'' then
                        Returned (deleteProcessing key (setCloneMap key (templ i) st0)) linkValue
                      else Returned (deleteProcessing key st0) linkValue)))"
  by pat_completeness auto
termination
  by (relation "measures
        [case_sum (case_sum fst (case_sum fst fst)) (case_sum fst (case_sum fst fst)),
         case_sum (case_sum (\<lambda>p. 0) (case_sum (\<lambda>p. 5) (\<lambda>p. 4)))
           (case_sum (\<lambda>p. 3) (case_sum (\<lambda>p. 3) (\<lambda>p. 1))),
         case_sum
           (case_sum (\<lambda>p. 0)
              (case_sum (\<lambda>(n, svc, repo, now, st, e, locale, detected, prefixFieldIds, fieldDefs).
                           length fieldDefs)
                        (\<lambda>(n, svc, repo, now, st, fieldId, finish, lvs). length lvs)))
           (case_sum (\<lambda>(n, svc, repo, now, st, v, locale, fieldId). size v)
              (case_sum (\<lambda>(n, svc, repo, now, st, items, locale, fieldId). size_list size items)
                        (\<lambda>p. 0)))]")
     auto

text \<open>\<open>cloneEntry\<close>: one first-clone run, from empty maps.\<close>

definition cloneEntry ::
  "nat \<Rightarrow> cloneService \<Rightarrow> repository \<Rightarrow> string \<Rightarrow> string \<Rightarrow> string \<Rightarrow> string outcome" where
  "cloneEntry fuel svc repo now sourceEntryId targetLang =
     (let svc1 = svc\<lparr> translationCfg :=
                   (translationCfg svc)\<lparr> targetLanguage := toLowerCase targetLang \<rparr> \<rparr>;
          st0 = \<lparr> cloneMap = [], processingSet = [], createdEntries = [] \<rparr>
      in case repo_getEntry repo sourceEntryId of
           None \<Rightarrow> Threw st0 (Error ''The resource could not be found.'')
         | Some sourceEntry \<Rightarrow>
             if e_contentType sourceEntry \<noteq> ''cmsPage''
             then Threw st0 (Error ''This tool only works with CmsPage content type.'')
             else
               (case detectSourceLocaleFromEntry svc1 (e_fields sourceEntry) of
                  None \<Rightarrow> Threw st0 (Error ''Main CmsPage entry is missing required culture field'')
                | Some l \<Rightarrow>
                    if l = []
                    then Threw st0 (Error ''Main CmsPage entry is missing required culture field'')
                    else cloneEntryRecursive fuel (svc1\<lparr> mainCmsPageSourceLanguage := Some l \<rparr>)
                           repo now st0 sourceEntry ''en-US-POSIX''))"

subsection \<open>A repository with a cycle, and one with a shared reference\<close>

text \<open>Page \<open>A\<close> links to \<open>B\<close> and \<open>B\<close> links back to \<open>A\<close>. New entries get the ids
  \<open>clone1\<close>, \<open>clone2\<close>, ... in the order of their creation.\<close>

definition cyclePage :: entry where
  "cyclePage =
     \<lparr> e_id = ''A'', e_version = 1, e_publishedVersion = None, e_contentType = ''cmsPage'',
       e_fields = [(''culture'', JObj [(''en-US-POSIX'', JStr ''de-DE'')]),
                   (''ref'', JObj [(''en-US-POSIX'', entryLink ''B'')])] \<rparr>"

definition cycleRepository :: repository where
  "cycleRepository =
     \<lparr> repo_getEntry = (\<lambda>i. if i = ''A'' then Some cyclePage
                            else if i = ''B'' then Some (linkingEntry ''B'' ''scText'' ''A'')
                            else None),
       repo_getContentType =
         (\<lambda>c. if c = ''cmsPage''
              then Some [\<lparr> fd_id = ''culture'', fd_type = ''Symbol'', fd_required = True,
                             fd_validations = None \<rparr>,
                         \<lparr> fd_id = ''ref'', fd_type = ''Link'', fd_required = False,
                             fd_validations = None \<rparr>]
              else if c = ''scText''
              then Some [\<lparr> fd_id = ''ref'', fd_type = ''Link'', fd_required = False,
                             fd_validations = None \<rparr>]
              else None),
       repo_createEntry = (\<lambda>k c fs. Some (''clone'' @ decimal (Suc k))),
       repo_findExistingAuthor = (\<lambda>a c. None) \<rparr>"

text \<open>What a run leaves behind, in short: the result, the clone map, and for every created
  entry its id, its source and the value of its field \<open>ref\<close>.\<close>

definition runSummary ::
  "string outcome \<Rightarrow> (string \<times> (string \<times> string) list \<times> (string \<times> string \<times> json) list) option" where
  "runSummary r =
     (case r of
        Returned st newId \<Rightarrow>
          Some (newId, cloneMap st,
                map (\<lambda>c. (ce_id c, ce_source c, jget (JObj (ce_fields c)) ''ref''))
                  (createdEntries st))
      | _ \<Rightarrow> None)"

text \<open>The state that a call leaves behind when it returns or throws.\<close>

definition final :: "'a outcome \<Rightarrow> cloneState option" where
  "final r = (case r of OutOfFuel \<Rightarrow> None | Threw st e \<Rightarrow> Some st | Returned st x \<Rightarrow> Some st)"

text \<open>The clone map key of the source of a created entry.\<close>

definition sourceKey :: "createdEntry \<Rightarrow> string" where
  "sourceKey c = ''Entry:'' @ ce_source c"

subsection \<open>How the state of a run grows\<close>

definition keys :: "cloneState \<Rightarrow> string set" where
  "keys st = fst ` set (cloneMap st)"

text \<open>
  Entries created between two states are fresh when their sources are pairwise different,
  were neither mapped nor in processing at the first state, and are mapped at the second.
\<close>

definition fresh :: "cloneState \<Rightarrow> cloneState \<Rightarrow> createdEntry list \<Rightarrow> bool" where
  "fresh st st' new =
     (distinct (map sourceKey new) \<and>
      list_all (\<lambda>c. sourceKey c \<notin> keys st \<and> sourceKey c \<notin> set (processingSet st) \<and>
                    sourceKey c \<in> keys st') new)"

definition grows :: "cloneState \<Rightarrow> cloneState \<Rightarrow> bool" where
  "grows st st' =
     (processingSet st' = processingSet st \<and> keys st \<subseteq> keys st' \<and>
      (\<exists>new. createdEntries st' = createdEntries st @ new \<and> fresh st st' new))"

text \<open>The same for a call of \<open>cloneEntryRecursive\<close> on the entry with key \<open>k\<close>, whose own clone
  comes last.\<close>

definition growsAt :: "string \<Rightarrow> cloneState \<Rightarrow> cloneState \<Rightarrow> bool" where
  "growsAt k st st' =
     (processingSet st' = processingSet st \<and> keys st \<subseteq> keys st' \<and>
      (\<exists>new last. createdEntries st' = createdEntries st @ new @ last \<and> fresh st st' new \<and>
         (last = [] \<or> (\<exists>c. last = [c] \<and> sourceKey c = k \<and> k \<notin> keys st \<and> k \<in> keys st'))))"

section \<open>Properties of text translation\<close>










section \<open>Defaults for required fields\<close>




section \<open>Properties of the reference tree\<close>

declare buildReferenceTree.simps [simp del]

lemma buildReferenceTree_root [simp]:
  "n_depth (buildReferenceTree t env now e d p f) = d"
  "n_id (buildReferenceTree t env now e d p f) = e_id e"
  by (subst buildReferenceTree.simps, simp)+

lemma buildReferenceTree_depths:
  "depthsOK (maxDepth t) (buildReferenceTree t env now e d p f)"
proof (induction t env now e d p f rule: buildReferenceTree.induct)
  case (1 t env now e d p f)
  have IH: "depthsOK (maxDepth t)
      (buildReferenceTree t env now x (Suc d) (Some (e_id e)) (Some a))"
    if "d < maxDepth t" "(a, b) \<in> set (e_fields e)" "isReferenceField b"
       "shouldTrackReferenceField a" "r \<in> set (extractReferencedEntries b)"
       "linkId r = Some rid" "rid \<noteq> e_id e" "\<not> isAssetReference r" "env rid = Some x"
    for a b r rid x
    using 1[of "(a, b)" r rid x] that by simp
  show ?case
    apply (subst buildReferenceTree.simps)
    apply (auto simp: list_all_iff split: option.splits if_splits)
    apply (rule IH; auto)
    done
qed

lemma buildReferenceTree_noSelfChild:
  assumes "\<forall>i x. env i = Some x \<longrightarrow> e_id x = i"
  shows "noSelfChild (buildReferenceTree t env now e d p f)"
  using assms
proof (induction t env now e d p f rule: buildReferenceTree.induct)
  case (1 t env now e d p f)
  note wf = "1.prems"
  have IH: "noSelfChild (buildReferenceTree t env now x (Suc d) (Some (e_id e)) (Some a))"
    if "d < maxDepth t" "(a, b) \<in> set (e_fields e)" "isReferenceField b"
       "shouldTrackReferenceField a" "r \<in> set (extractReferencedEntries b)"
       "linkId r = Some rid" "rid \<noteq> e_id e" "\<not> isAssetReference r" "env rid = Some x"
    for a b r rid x
    using "1.IH"[of "(a, b)" r rid x] that wf by simp
  have wf2: "e_id x = i" if "Some x = env i" for i x
    using wf[rule_format, OF that[symmetric]] .
  show ?case
    apply (subst buildReferenceTree.simps)
    apply (auto simp: list_all_iff split: option.splits if_splits dest: wf2)
    apply (rule IH; auto)
    done
qed

text \<open>
  Claim C3, as stated, where entry \<open>A\<close> links to \<open>B\<close> and \<open>B\<close> links back to \<open>A\<close>: with the
  default depth cap 3 the tree built from \<open>A\<close> is the path \<open>A, B, A, B\<close>, on which both ids
  appear twice.
\<close>

theorem reference_tree_path_repeats:
  "buildReferenceTree (DeepReferenceTracker fieldNames (\<lambda>i s c. []) None None) cycleEnv ''t0''
     (linkingEntry ''A'' ''cmsPage'' ''B'') 0 None None =
   RefNode ''A'' 1 0 None None [] ''t0''
     [RefNode ''B'' 1 1 (Some ''A'') (Some ''ref'') [] ''t0''
        [RefNode ''A'' 1 2 (Some ''B'') (Some ''ref'') [] ''t0''
           [RefNode ''B'' 1 3 (Some ''A'') (Some ''ref'') [] ''t0'' []]]] \<and>
   \<not> pathDistinct []
     (buildReferenceTree (DeepReferenceTracker fieldNames (\<lambda>i s c. []) None None) cycleEnv ''t0''
        (linkingEntry ''A'' ''cmsPage'' ''B'') 0 None None)"
  by code_simp

text \<open>
  Claim C3, amended. In every reference tree that \<open>buildReferenceTree\<close> returns for a root
  at depth 0, the root has depth 0, every child's depth is its parent's depth plus one and
  does not exceed the depth cap, a node at the cap has no children, and no node has a
  child with its own id (a link from an entry to itself is skipped). (The repository is
  assumed to answer \<open>getEntry\<close> with the entry of the requested id.)
\<close>

theorem reference_tree_shape:
  assumes "\<forall>i x. env i = Some x \<longrightarrow> e_id x = i"
  shows "n_depth (buildReferenceTree t env now root 0 None None) = 0 \<and>
         depthsOK (maxDepth t) (buildReferenceTree t env now root 0 None None) \<and>
         noSelfChild (buildReferenceTree t env now root 0 None None)"
  using buildReferenceTree_depths[of t env now root 0 None None]
    buildReferenceTree_noSelfChild[OF assms, of t now root 0 None None]
  by simp

theorem reference_tree_shape_witness:
  "n_depth (buildReferenceTree (DeepReferenceTracker fieldNames (\<lambda>i s c. []) None None) cycleEnv
      ''t0'' (linkingEntry ''A'' ''cmsPage'' ''B'') 0 None None) = 0 \<and>
   depthsOK 3 (buildReferenceTree (DeepReferenceTracker fieldNames (\<lambda>i s c. []) None None) cycleEnv
      ''t0'' (linkingEntry ''A'' ''cmsPage'' ''B'') 0 None None) \<and>
   noSelfChild (buildReferenceTree (DeepReferenceTracker fieldNames (\<lambda>i s c. []) None None) cycleEnv
      ''t0'' (linkingEntry ''A'' ''cmsPage'' ''B'') 0 None None)"
proof -
  have wf: "\<forall>i x. cycleEnv i = Some x \<longrightarrow> e_id x = i"
    by (auto simp: cycleEnv_def linkingEntry_def split: if_splits)
  have m: "maxDepth (DeepReferenceTracker fieldNames (\<lambda>i s c. []) None None) = 3"
    by (simp add: DeepReferenceTracker_def)
  from reference_tree_shape[OF wf,
      of "DeepReferenceTracker fieldNames (\<lambda>i s c. []) None None" "''t0''"
         "linkingEntry ''A'' ''cmsPage'' ''B''"]
  show ?thesis unfolding m .
qed

section \<open>Properties of the comparison\<close>

lemma compareCurrent_removed [simp]:
  "removedReferences (compareCurrent t src stored cur chg) = removedReferences chg"
  by (induction cur arbitrary: chg) (auto simp: Let_def split: option.splits)




lemma compareStored_other [simp]:
  "changedReferences (compareStored cur ks chg) = changedReferences chg"
  "newReferences (compareStored cur ks chg) = newReferences chg"
  by (induction ks arbitrary: chg) auto

lemma detect_with_stored_map:
  assumes "getStoredDeepReferenceMap svc w src tgt = Some (DeepRefsFile stored)"
    and "buildCurrentReferenceMapForComparison t (entries w) now src tgt = Inr current"
  shows "detectDeepReferenceChanges t svc w now src tgt =
           (w, Inr (compareMaps t src stored current))"
  using assms by (simp add: detectDeepReferenceChanges_def)


section \<open>Properties of the relationship store\<close>

lemma getRelationshipMetadata_files [simp]:
  "getRelationshipMetadata (w\<lparr> files := f \<rparr>) src tgt = getRelationshipMetadata w src tgt"
  by (simp add: getRelationshipMetadata_def findRelationshipMetadata_def)

text \<open>On the file branch, storing a relationship keeps the \<open>createdAt\<close> of the record that
  the file held.\<close>

lemma store_on_file_preserves_createdAt:
  assumes "\<not> contentfulMetadataService svc"
    and "files w (relationshipFilename src tgt) = Some (RelationshipFile old)"
    and "r_metadata old = Some m"
  shows "\<exists>r m'. files (createOrUpdateRelationship svc w now src tgt v ctx hs cm)
                   (relationshipFilename src tgt) = Some (RelationshipFile r) \<and>
                 r_metadata r = Some m' \<and> createdAt m' = createdAt m"
  using assms
  by (simp add: createOrUpdateRelationship_def Let_def existingCreatedAt_def)

text \<open>On the repository-backed branch the record is written with \<open>createdAt\<close> set to the
  time of the call, whether or not an entry for the pair existed: nothing of an earlier
  \<open>createdAt\<close> is read back.\<close>

lemma findFirst_update:
  "findFirst P xs = Some (i, x) \<Longrightarrow> P y \<Longrightarrow> findFirst P (xs[i := y]) = Some (i, y)"
proof (induction xs arbitrary: i)
  case Nil
  then show ?case by simp
next
  case (Cons a xs)
  show ?case
  proof (cases "P a")
    case True
    with Cons.prems show ?thesis by simp
  next
    case False
    with Cons.prems obtain j where j: "findFirst P xs = Some (j, x)" and i: "i = Suc j"
      by (auto split: option.splits)
    from Cons.IH[OF j Cons.prems(2)] False i show ?thesis by simp
  qed
qed

lemma findFirst_append:
  "findFirst P xs = None \<Longrightarrow> P y \<Longrightarrow> findFirst P (xs @ [y]) = Some (length xs, y)"
  by (induction xs) (auto split: if_splits)

lemma store_on_repository_sets_createdAt:
  assumes "contentfulMetadataService svc" and "getEntries_ok w" and "getEntry_ok w"
    and "update_ok w" and "createEntry_ok w"
  shows "map_option (\<lambda>r. map_option createdAt (r_metadata r))
           (getRelationshipMetadata
              (createOrUpdateRelationship svc w now src tgt v ctx hs cm) src tgt) =
         Some (Some (Some now))"
proof (cases "findFirst (\<lambda>e. fst e = generateRelationshipId src tgt) (metaEntries w)")
  case None
  from findFirst_append[OF None, of "(generateRelationshipId src tgt, d)" for d] assms None
  show ?thesis
    by (simp add: createOrUpdateRelationship_def Let_def storeRelationshipMetadata_def
        findRelationshipMetadata_def getRelationshipMetadata_def)
next
  case (Some p)
  obtain i x where p: "p = (i, x)" by (cases p)
  from findFirst_update[OF Some[unfolded p], of "(generateRelationshipId src tgt, d)" for d] assms Some p
  show ?thesis
    by (simp add: createOrUpdateRelationship_def Let_def storeRelationshipMetadata_def
        findRelationshipMetadata_def getRelationshipMetadata_def)
qed

text \<open>
  Claim C9, on the repository-backed store: the relationship of \<open>X\<close> and \<open>X2\<close> was created at
  \<open>t0\<close>; storing it again at \<open>t1\<close> updates the one entry in place (the upsert) and leaves
  \<open>t1\<close> as its \<open>createdAt\<close>.
\<close>

theorem store_on_repository_overwrites_createdAt:
  "map (\<lambda>e. (fst e, map_option createdAt (r_metadata (snd e)))) (metaEntries worldX) =
     [(''X_X2'', Some (Some ''t0''))] \<and>
   map (\<lambda>e. (fst e, map_option createdAt (r_metadata (snd e))))
     (metaEntries (createOrUpdateRelationship exampleService worldX ''t1'' ''X'' ''X2'' 4
        \<lparr> ctx_sourceLanguage = ''DE'', ctx_targetLanguage = ''IT'' \<rparr>
        [(''title'', ''h2'')] [(''Entry:X'', ''X2'')])) =
     [(''X_X2'', Some (Some ''t1''))]"
  by (simp add: worldX_def relationshipX_def exampleService_def initialize_def
      ServerIncrementalTranslationService_def createOrUpdateRelationship_def Let_def
      storeRelationshipMetadata_def findRelationshipMetadata_def generateRelationshipId_def)



section \<open>Properties of the status check\<close>

text \<open>A service whose own \<open>deepReferenceTracker\<close> is unset writes nothing in a status check
  when a tree snapshot is stored for the pair.\<close>

lemma status_check_writes_nothing:
  assumes "deepReferenceTracker svc = None"
    and "getStoredDeepReferenceMap svc w src tgt \<noteq> None"
  shows "fst (snd (checkUpdateStatus svc w now src tgt)) = w"
proof -
  let ?svc1 = "initializeDeepTrackingAsync svc (Some 3) (Some True)"
  have s: "getStoredDeepReferenceMap ?svc1 w src tgt = getStoredDeepReferenceMap svc w src tgt"
    by (simp add: getStoredDeepReferenceMap_def initializeDeepTrackingAsync_def)
  have d: "fst (detectDeepReferenceChanges t ?svc1 w now src tgt) = w" for t
    using assms(2) s
    by (auto simp: detectDeepReferenceChanges_def Let_def
        split: sum.splits option.splits fileData.splits)
  have p: "fst (detectParentFieldChanges ?svc1 w now e src tgt) = w" for e
    using d
    by (auto simp: detectParentFieldChanges_def Let_def
        split: option.splits prod.splits sum.splits) (metis fst_conv)+
  have n: "deepReferenceTracker ?svc1 = None"
    using assms(1) by (simp add: initializeDeepTrackingAsync_def)
  show ?thesis
    using p n
    by (auto simp: checkUpdateStatus_def Let_def split: option.splits prod.splits)
       (metis fst_conv)
qed

text \<open>
  Claim C2, at the relationship of \<open>X\<close> and \<open>X2\<close> whose tree snapshot was taken at \<open>t0\<close>: a
  status check at \<open>t1\<close> on the unchanged source finds no change, and the stored snapshot
  afterwards is still the one of \<open>t0\<close>, not the tree built at \<open>t1\<close>.
\<close>

theorem status_check_keeps_old_snapshot:
  "(case checkUpdateStatus exampleService worldX ''t1'' ''X'' ''X2'' of
      (svc, w, result) \<Rightarrow>
        result = Status False [] \<and>
        deepReferenceTracker svc = None \<and>
        getStoredDeepReferenceMap svc w ''X'' ''X2'' = Some (DeepRefsFile storedMapX) \<and>
        map_option dm_lastScanned (getDeepReferenceMap w ''X'' ''X2'') = Some ''t0'') \<and>
   map_sum id dm_lastScanned
     (buildCurrentReferenceMapForComparison
        (DeepReferenceTracker fieldNames (\<lambda>i s c. []) (Some 3) (Some True))
        pageEnv ''t1'' ''X'' ''X2'') = Inr ''t1''"
  by code_simp

section \<open>Properties of markdown translation\<close>

text \<open>A replacement without a dollar sign is inserted as it is.\<close>

lemma expandReplacement_plain:
  "CHR ''$'' \<notin> set r \<Longrightarrow> expandReplacement bef matched aft r = r"
  by (induction bef matched aft r rule: expandReplacement.induct) auto

lemma markdown_image_example:
  "translateMarkdownContent (ServerContentfulCloneService (Some echoTranslator))
     ''## Hallo ![Bild](https://cdn/a.jpg)'' ''DE'' = ''## Hallo ![Bild](https://cdn/a.jpg)''"
  by code_simp

text \<open>
  Claim C5, at an image whose url holds two dollar signs in a row: with a translator that
  answers every request with the text it was given, the image comes back with one dollar
  sign in its url; and when the caption cannot be translated, the block that is put back
  has lost the dollar sign as well.
\<close>

theorem markdown_url_with_dollars_is_altered:
  "translateMarkdownContent (ServerContentfulCloneService (Some echoTranslator))
     ''![Preis](https://cdn/a.jpg?p=$$)'' ''DE'' = ''![Preis](https://cdn/a.jpg?p=$)'' \<and>
   translateMarkdownContent (ServerContentfulCloneService (Some bodyOnlyTranslator))
     ''![Preis](https://cdn/a.jpg?p=$$)'' ''DE'' = ''![Preis](https://cdn/a.jpg?p=$)''"
  by code_simp

section \<open>Properties of the recursive clone\<close>

declare cloneEntryRecursive.simps [simp del] processFields.simps [simp del]
  processLocales.simps [simp del] processFieldValue.simps [simp del]
  processArray.simps [simp del] processLinkField.simps [simp del]

lemma keys_assign [simp]: "fst ` set (assign k v m) = insert k (fst ` set m)"
  by (induction m) auto

lemma map_of_None_keys: "map_of (cloneMap st) k = None \<longleftrightarrow> k \<notin> keys st"
  by (simp add: keys_def map_of_eq_None_iff)

lemma grows_refl [simp]: "grows st st"
  by (simp add: grows_def fresh_def)

lemma grows_trans: "grows st st1 \<Longrightarrow> grows st1 st2 \<Longrightarrow> grows st st2"
  unfolding grows_def fresh_def
  apply (elim conjE exE)
  subgoal for new1 new2
    apply (intro conjI)
      apply simp
     apply blast
    apply (rule exI[of _ "new1 @ new2"])
    apply (auto simp: list_all_iff)
    done
  done

lemma grows_growsAt: "grows st st' \<Longrightarrow> growsAt k st st'"
  unfolding grows_def growsAt_def by (metis append_Nil2)


lemma sel_simps [simp]:
  "cloneMap (deleteProcessing k st) = cloneMap st"
  "createdEntries (deleteProcessing k st) = createdEntries st"
  "cloneMap (addProcessing k st) = cloneMap st"
  "createdEntries (addProcessing k st) = createdEntries st"
  "processingSet (setCloneMap k v st) = processingSet st"
  "createdEntries (setCloneMap k v st) = createdEntries st"
  "keys (deleteProcessing k st) = keys st"
  "keys (addProcessing k st) = keys st"
  "keys (setCloneMap k v st) = insert k (keys st)"
  "processingSet (deleteProcessing k st) = removeAll k (processingSet st)"
  "processingSet (addProcessing k st) =
     (if k \<in> set (processingSet st) then processingSet st else processingSet st @ [k])"
  by (auto simp: deleteProcessing_def addProcessing_def setCloneMap_def keys_def)

lemma grows_unwrap:
  assumes k1: "k \<notin> keys st" and k2: "k \<notin> set (processingSet st)"
    and g: "growsAt k (addProcessing k st) st1"
  shows "grows st (deleteProcessing k st1)"
proof -
  from g obtain new last where
    p: "processingSet st1 = processingSet (addProcessing k st)"
    and ks: "keys st \<subseteq> keys st1"
    and c: "createdEntries st1 = createdEntries st @ new @ last"
    and f: "fresh (addProcessing k st) st1 new"
    and l: "last = [] \<or> (\<exists>c. last = [c] \<and> sourceKey c = k \<and> k \<in> keys st1)"
    unfolding growsAt_def by auto
  have p': "processingSet (deleteProcessing k st1) = processingSet st"
    using p k2 by (simp add: addProcessing_def)
  have "fresh st (deleteProcessing k st1) (new @ last)"
    using f l k1 k2 unfolding fresh_def by (auto simp: list_all_iff)
  with p' ks c show ?thesis unfolding grows_def by auto
qed


lemma grows_del_add:
  "k \<notin> set (processingSet st) \<Longrightarrow> grows st (deleteProcessing k (addProcessing k st))"
  by (simp add: grows_def fresh_def)

lemma grows_del_set_add:
  "k \<notin> set (processingSet st) \<Longrightarrow>
   grows st (deleteProcessing k (setCloneMap k v (addProcessing k st)))"
  by (auto simp: grows_def fresh_def deleteProcessing_def addProcessing_def setCloneMap_def keys_def)

lemma final_simps [simp]:
  "final OutOfFuel = None" "final (Threw st e) = Some st" "final (Returned st x) = Some st"
  by (simp_all add: final_def)

lemma link_grows:
  assumes wf: "\<forall>i e. repo_getEntry repo i = Some e \<longrightarrow> e_id e = i"
    and S: "\<And>st e loc st'. final (cloneEntryRecursive n svc repo now st e loc) = Some st' \<Longrightarrow>
              growsAt (''Entry:'' @ e_id e) st st'"
    and r: "final (processLinkField n svc repo now st lv loc fid) = Some st'"
  shows "grows st st'"
proof (cases "\<not> truthy lv \<or> \<not> truthy (jget lv ''sys'')")
  case True
  with r show ?thesis by (simp add: processLinkField.simps)
next
  case False
  define linkType where "linkType = jget (jget lv ''sys'') ''linkType''"
  define i where "i = jget (jget lv ''sys'') ''id''"
  define key where "key = templ linkType @ '':'' @ templ i"
  show ?thesis
  proof (cases "map_of (cloneMap st) key")
    case (Some mapped)
    with r False show ?thesis
      by (simp add: processLinkField.simps Let_def linkType_def i_def key_def)
  next
    case None
    then have k1: "key \<notin> keys st" by (simp add: map_of_None_keys)
    show ?thesis
    proof (cases "key \<in> set (processingSet st)")
      case True
      with r False None show ?thesis
        by (simp add: processLinkField.simps Let_def linkType_def i_def key_def)
    next
      case k2: False
      let ?st0 = "addProcessing key st"
      note r' = r[unfolded processLinkField.simps[of n svc repo now st lv loc fid] Let_def,
          folded linkType_def i_def, folded key_def]
      show ?thesis
      proof (cases "linkType = JStr ''Entry''")
        case notEntry: False
        with r' False None k2 show ?thesis
          by (auto simp: grows_del_add grows_del_set_add split: if_splits)
      next
        case isEntry: True
        show ?thesis
        proof (cases "lookupAuthor svc repo fid i")
          case AuthorThrew
          with r' False None isEntry k2 show ?thesis by (auto simp: grows_del_add)
        next
          case (AuthorFound x)
          with r' False None isEntry k2 show ?thesis by (auto simp: grows_del_set_add)
        next
          case AuthorNotFound
          show ?thesis
          proof (cases "case i of JStr s \<Rightarrow> repo_getEntry repo s | _ \<Rightarrow> None")
            case None
            with r' False isEntry AuthorNotFound k2 \<open>map_of (cloneMap st) key = None\<close>
            show ?thesis by (auto simp: grows_del_add)
          next
            case (Some sourceEntry)
            then obtain s where i: "i = JStr s" and g: "repo_getEntry repo s = Some sourceEntry"
              by (auto split: json.splits)
            with wf have id: "e_id sourceEntry = s" by blast
            have key: "key = ''Entry:'' @ e_id sourceEntry"
              by (simp add: key_def isEntry i id templ_def)
            from r' False isEntry AuthorNotFound Some k2 \<open>map_of (cloneMap st) key = None\<close>
            obtain st1 where
              f: "final (cloneEntryRecursive n svc repo now ?st0 sourceEntry loc) = Some st1"
              and st': "st' = deleteProcessing key st1"
              by (auto split: outcome.splits)
            from S[OF f] key have "growsAt key ?st0 st1" by simp
            from grows_unwrap[OF k1 k2 this] st' show ?thesis by simp
          qed
        qed
      qed
    qed
  qed
qed


lemma array_grows:
  assumes L: "\<And>st lv loc fid st'. final (processLinkField n svc repo now st lv loc fid) = Some st' \<Longrightarrow>
              grows st st'"
    and V: "\<And>x st st'. x \<in> set items \<Longrightarrow>
              final (processFieldValue n svc repo now st x loc fid) = Some st' \<Longrightarrow> grows st st'"
    and r: "final (processArray n svc repo now st items loc fid) = Some st'"
  shows "grows st st'"
  using V r
proof (induction items arbitrary: st)
  case Nil
  then show ?case by (simp add: processArray.simps)
next
  case (Cons item items)
  define first where "first = (if isLink item then processLinkField n svc repo now st item loc fid
            else processFieldValue n svc repo now st item loc fid)"
  from Cons.prems(2) obtain st1 where f: "final first = Some st1"
    and rest: "final (processArray n svc repo now st1 items loc fid) = Some st' \<or> st' = st1"
    unfolding first_def
    by (auto simp: processArray.simps split: outcome.splits if_splits)
  have g1: "grows st st1"
    using f L Cons.prems(1)[of item st st1] unfolding first_def by (auto split: if_splits)
  from rest show ?case
  proof
    assume "final (processArray n svc repo now st1 items loc fid) = Some st'"
    then have "grows st1 st'" using Cons.IH Cons.prems(1) by auto
    with g1 show ?thesis by (rule grows_trans)
  next
    assume "st' = st1"
    with g1 show ?thesis by simp
  qed
qed

lemma value_grows:
  assumes L: "\<And>st lv loc fid st'. final (processLinkField n svc repo now st lv loc fid) = Some st' \<Longrightarrow>
              grows st st'"
    and r: "final (processFieldValue n svc repo now st v loc fid) = Some st'"
  shows "grows st st'"
  using r
proof (induction v arbitrary: st st')
  case (JArr items)
  from JArr.prems have "final (processArray n svc repo now st items loc fid) = Some st'"
    by (auto simp: processFieldValue.simps split: outcome.splits)
  then show ?case
  proof (rule array_grows[where n=n and svc=svc and repo=repo and now=now
        and items=items and loc=loc and fid=fid, rotated 2])
    show "\<And>st lv loc fid st'.
        final (processLinkField n svc repo now st lv loc fid) = Some st' \<Longrightarrow> grows st st'"
      by (rule L)
    show "\<And>x st st'. x \<in> set items \<Longrightarrow>
        final (processFieldValue n svc repo now st x loc fid) = Some st' \<Longrightarrow> grows st st'"
      using JArr.IH by blast
  qed
qed (auto simp: processFieldValue.simps dest: L split: if_splits)

lemma locales_grows:
  assumes L: "\<And>st lv loc fid st'. final (processLinkField n svc repo now st lv loc fid) = Some st' \<Longrightarrow>
              grows st st'"
    and r: "final (processLocales n svc repo now st fid finish lvs) = Some st'"
  shows "grows st st'"
  using r
proof (induction lvs arbitrary: st)
  case Nil
  then show ?case by (simp add: processLocales.simps)
next
  case (Cons lv rest)
  from Cons.prems obtain st1 where
    f: "final (processFieldValue n svc repo now st (snd lv) (fst lv) fid) = Some st1"
    and rest: "final (processLocales n svc repo now st1 fid finish rest) = Some st' \<or> st' = st1"
    by (auto simp: processLocales.simps split: outcome.splits)
  have g1: "grows st st1" using value_grows[OF L f] .
  from rest show ?case
  proof
    assume "final (processLocales n svc repo now st1 fid finish rest) = Some st'"
    then have "grows st1 st'" by (rule Cons.IH)
    with g1 show ?thesis by (rule grows_trans)
  next
    assume "st' = st1"
    with g1 show ?thesis by simp
  qed
qed

lemma fields_grows:
  assumes L: "\<And>st lv loc fid st'. final (processLinkField n svc repo now st lv loc fid) = Some st' \<Longrightarrow>
              grows st st'"
    and r: "final (processFields n svc repo now st e loc det pre fds) = Some st'"
  shows "grows st st'"
  using r
proof (induction fds arbitrary: st)
  case Nil
  then show ?case by (simp add: processFields.simps)
next
  case (Cons fd rest)
  define field where "field =
            (if truthy (jget (JObj (e_fields e)) (fd_id fd)) then
               (if shouldEmptyField svc (fd_id fd)
                then Returned st (getEmptyValueForField fd loc)
                else
                  (case processLocales n svc repo now st (fd_id fd)
                          (if shouldCopyAsIs svc (fd_id fd) \<or> isAuthorField svc (fd_id fd)
                           then (\<lambda>v. v)
                           else finishValue svc (e_contentType e) fd pre det)
                          (object_entries (jget (JObj (e_fields e)) (fd_id fd))) of
                     OutOfFuel \<Rightarrow> OutOfFuel
                   | Threw st1 e \<Rightarrow> Threw st1 e
                   | Returned st1 processedField \<Rightarrow> Returned st1 (Some (JObj processedField))))
             else Returned st (missingFieldValue svc now fd loc))"
  have eq: "processFields n svc repo now st e loc det pre (fd # rest) =
      (case field of
         OutOfFuel \<Rightarrow> OutOfFuel
       | Threw st1 e \<Rightarrow> Threw st1 e
       | Returned st1 v \<Rightarrow>
           (case processFields n svc repo now st1 e loc det pre rest of
              OutOfFuel \<Rightarrow> OutOfFuel
            | Threw st2 e \<Rightarrow> Threw st2 e
            | Returned st2 newFields \<Rightarrow>
                Returned st2 (case v of Some x \<Rightarrow> (fd_id fd, x) # newFields | None \<Rightarrow> newFields)))"
    unfolding field_def by (simp only: processFields.simps Let_def)
  from Cons.prems obtain st1 where f: "final field = Some st1"
    and rest: "final (processFields n svc repo now st1 e loc det pre rest) = Some st' \<or> st' = st1"
    unfolding eq by (auto split: outcome.splits)
  have g1: "grows st st1"
  proof (cases "truthy (jget (JObj (e_fields e)) (fd_id fd)) \<and> \<not> shouldEmptyField svc (fd_id fd)")
    case True
    then have "final (processLocales n svc repo now st (fd_id fd)
                          (if shouldCopyAsIs svc (fd_id fd) \<or> isAuthorField svc (fd_id fd)
                           then (\<lambda>v. v)
                           else finishValue svc (e_contentType e) fd pre det)
                          (object_entries (jget (JObj (e_fields e)) (fd_id fd)))) = Some st1"
      using f unfolding field_def by (auto split: outcome.splits simp del: jget.simps)
    from locales_grows[OF L this] show ?thesis .
  next
    case False
    then have "st1 = st"
      using f unfolding field_def by (auto split: if_splits simp del: jget.simps)
    then show ?thesis by simp
  qed
  from rest show ?case
  proof
    assume "final (processFields n svc repo now st1 e loc det pre rest) = Some st'"
    then have "grows st1 st'" by (rule Cons.IH)
    with g1 show ?thesis by (rule grows_trans)
  next
    assume "st' = st1"
    with g1 show ?thesis by simp
  qed
qed


lemma grows_create:
  assumes g: "grows st st1" and k: "k \<notin> keys st" and c: "sourceKey c = k"
  shows "growsAt k st (setCloneMap k newId (st1\<lparr> createdEntries := createdEntries st1 @ [c] \<rparr>))"
proof -
  from g obtain new where p: "processingSet st1 = processingSet st"
    and ks: "keys st \<subseteq> keys st1"
    and cr: "createdEntries st1 = createdEntries st @ new"
    and f: "fresh st st1 new"
    unfolding grows_def by auto
  let ?st' = "setCloneMap k newId (st1\<lparr> createdEntries := createdEntries st1 @ [c] \<rparr>)"
  have k': "keys ?st' = insert k (keys st1)"
    by (simp add: setCloneMap_def keys_def)
  have "fresh st ?st' new"
    using f unfolding fresh_def k' by (auto simp: list_all_iff)
  moreover have "createdEntries ?st' = createdEntries st @ new @ [c]"
    using cr by (simp add: setCloneMap_def)
  moreover have "processingSet ?st' = processingSet st"
    using p by (simp add: setCloneMap_def)
  ultimately show ?thesis
    unfolding growsAt_def using ks k c k' by auto
qed

lemma clone_growsAt:
  assumes wf: "\<forall>i e. repo_getEntry repo i = Some e \<longrightarrow> e_id e = i"
    and r: "final (cloneEntryRecursive n svc repo now st e loc) = Some st'"
  shows "growsAt (''Entry:'' @ e_id e) st st'"
  using r
proof (induction n arbitrary: st e loc st')
  case 0
  then show ?case by (simp add: cloneEntryRecursive.simps)
next
  case (Suc n)
  have L: "\<And>st lv loc fid st'.
      final (processLinkField n svc repo now st lv loc fid) = Some st' \<Longrightarrow> grows st st'"
  proof -
    fix st lv loc fid st'
    assume a: "final (processLinkField n svc repo now st lv loc fid) = Some st'"
    show "grows st st'"
      by (rule link_grows[OF wf _ a]) (rule Suc.IH)
  qed
  define key where "key = ''Entry:'' @ e_id e"
  note r' = Suc.prems[unfolded cloneEntryRecursive.simps Let_def, folded key_def]
  show ?case
  proof (cases "map_of (cloneMap st) key")
    case (Some mapped)
    with r' have "st' = st" by simp
    then show ?thesis by (simp add: grows_growsAt)
  next
    case None
    then have k: "key \<notin> keys st" by (simp add: map_of_None_keys)
    show ?thesis
    proof (cases "repo_getContentType repo (e_contentType e)")
      case nct: None
      with r' None have "st' = st" by simp
      then show ?thesis by (simp add: grows_growsAt)
    next
      case (Some contentTypeFields)
      define pf where "pf = processFields n svc repo now st e loc
          (if e_contentType e = ''cmsPage'' then detectSourceLocaleFromEntry svc (e_fields e)
           else mainCmsPageSourceLanguage svc)
          (findPrefixFields svc contentTypeFields (e_fields e)) contentTypeFields"
      from r' None Some obtain st1 where f: "final pf = Some st1"
        and st': "st' = st1 \<or> (\<exists>newId flds. st' = setCloneMap key newId
              (st1\<lparr> createdEntries := createdEntries st1 @
                  [\<lparr> ce_id = newId, ce_contentType = e_contentType e, ce_fields = flds,
                     ce_source = e_id e \<rparr>] \<rparr>))"
        unfolding pf_def by (auto split: outcome.splits option.splits)
      have g: "grows st st1"
        by (rule fields_grows[rotated, OF f[unfolded pf_def]]) (rule L)
      from st' show ?thesis
      proof
        assume "st' = st1"
        with g show ?thesis unfolding key_def by (simp add: grows_growsAt)
      next
        assume "\<exists>newId flds. st' = setCloneMap key newId
              (st1\<lparr> createdEntries := createdEntries st1 @
                  [\<lparr> ce_id = newId, ce_contentType = e_contentType e, ce_fields = flds,
                     ce_source = e_id e \<rparr>] \<rparr>)"
        then obtain newId flds where "st' = setCloneMap key newId
              (st1\<lparr> createdEntries := createdEntries st1 @
                  [\<lparr> ce_id = newId, ce_contentType = e_contentType e, ce_fields = flds,
                     ce_source = e_id e \<rparr>] \<rparr>)" by blast
        moreover have "sourceKey \<lparr> ce_id = newId, ce_contentType = e_contentType e,
            ce_fields = flds, ce_source = e_id e \<rparr> = key"
          by (simp add: sourceKey_def key_def)
        ultimately show ?thesis
          using grows_create[OF g k] unfolding key_def by simp
      qed
    qed
  qed
qed

lemma distinct_filter_le1:
  "distinct (map f xs) \<Longrightarrow> length (filter (\<lambda>x. f x = a) xs) \<le> 1"
  by (induction xs) (auto simp: filter_empty_conv image_iff)


text \<open>A link to an entry that is already mapped is rewritten to the mapped target, and a
  link to an entry that is being processed is returned as it is; neither creates an
  entry.\<close>

lemma link_to_mapped_entry:
  assumes "truthy lv" and "truthy (jget lv ''sys'')"
    and "map_of (cloneMap st)
           (templ (jget (jget lv ''sys'') ''linkType'') @ '':'' @
            templ (jget (jget lv ''sys'') ''id'')) = Some mapped"
  shows "processLinkField n svc repo now st lv loc fid =
           Returned st (mkLink (jget (jget lv ''sys'') ''linkType'') mapped)"
  using assms by (simp add: processLinkField.simps Let_def)

lemma link_to_entry_in_progress:
  assumes "truthy lv" and "truthy (jget lv ''sys'')"
    and "map_of (cloneMap st)
           (templ (jget (jget lv ''sys'') ''linkType'') @ '':'' @
            templ (jget (jget lv ''sys'') ''id'')) = None"
    and "templ (jget (jget lv ''sys'') ''linkType'') @ '':'' @
         templ (jget (jget lv ''sys'') ''id'') \<in> set (processingSet st)"
  shows "processLinkField n svc repo now st lv loc fid = Returned st lv"
  using assms by (simp add: processLinkField.simps Let_def)

text \<open>
  Claim C1, as stated, where page \<open>A\<close> links to \<open>B\<close> and \<open>B\<close> links back to \<open>A\<close>: the run creates
  three entries, two of them clones of \<open>A\<close>. The first clone of \<open>A\<close> (made while \<open>B\<close> is being
  cloned) keeps the link to the source entry \<open>B\<close>, the clone of \<open>B\<close> links to that first clone,
  and the clone of \<open>A\<close> that the run returns links to the clone of \<open>B\<close>.
\<close>

theorem cycle_clones_root_twice:
  "runSummary (cloneEntry 10 (ServerContentfulCloneService None) cycleRepository ''t0'' ''A'' ''it'') =
     Some (''clone3'',
           [(''Entry:A'', ''clone3''), (''Entry:B'', ''clone2'')],
           [(''clone1'', ''A'', JObj [(''en-US-POSIX'', entryLink ''B'')]),
            (''clone2'', ''B'', JObj [(''en-US-POSIX'', entryLink ''clone1'')]),
            (''clone3'', ''A'', JObj [(''en-US-POSIX'', entryLink ''clone2'')])])"
  by code_simp

text \<open>
  Claim C1, amended. In every first-clone run, whether it returns or throws, at most one
  entry is created per source entry id other than the id of the run's root entry, no
  matter how many links, cycles included, lead to that source entry. (The repository is
  assumed to answer \<open>getEntry\<close> with the entry of the requested id.)
\<close>

theorem clone_at_most_one_per_reference:
  assumes wf: "\<forall>i e. repo_getEntry repo i = Some e \<longrightarrow> e_id e = i"
    and run: "final (cloneEntry fuel svc repo now rootId lang) = Some st"
    and sid: "sid \<noteq> rootId"
  shows "length (filter (\<lambda>c. ce_source c = sid) (createdEntries st)) \<le> 1"
proof -
  let ?st0 = "\<lparr> cloneMap = [], processingSet = [], createdEntries = [] \<rparr>"
  from run have "st = ?st0 \<or> (\<exists>e svc'. repo_getEntry repo rootId = Some e \<and>
      final (cloneEntryRecursive fuel svc' repo now ?st0 e ''en-US-POSIX'') = Some st)"
    unfolding cloneEntry_def Let_def
    by (auto split: option.splits if_splits)
  then show ?thesis
  proof
    assume "st = ?st0"
    then show ?thesis by simp
  next
    assume "\<exists>e svc'. repo_getEntry repo rootId = Some e \<and>
      final (cloneEntryRecursive fuel svc' repo now ?st0 e ''en-US-POSIX'') = Some st"
    then obtain e svc' where e: "repo_getEntry repo rootId = Some e"
      and f: "final (cloneEntryRecursive fuel svc' repo now ?st0 e ''en-US-POSIX'') = Some st"
      by blast
    from wf e have id: "e_id e = rootId" by blast
    from clone_growsAt[OF wf f] id obtain new last where
      cr: "createdEntries st = new @ last"
      and fr: "fresh ?st0 st new"
      and l: "last = [] \<or> (\<exists>c. last = [c] \<and> sourceKey c = ''Entry:'' @ rootId)"
      unfolding growsAt_def by auto
    have "distinct (map sourceKey new)" using fr by (simp add: fresh_def)
    then have "length (filter (\<lambda>c. sourceKey c = ''Entry:'' @ sid) new) \<le> 1"
      by (rule distinct_filter_le1)
    then have n: "length (filter (\<lambda>c. ce_source c = sid) new) \<le> 1"
      by (simp add: sourceKey_def)
    have "filter (\<lambda>c. ce_source c = sid) last = []"
      using l sid by (auto simp: sourceKey_def)
    with n cr show ?thesis by simp
  qed
qed

theorem clone_at_most_one_per_reference_witness:
  "(case final (cloneEntry 10 (ServerContentfulCloneService None) cycleRepository ''t0'' ''A'' ''it'') of
      Some st \<Rightarrow> length (filter (\<lambda>c. ce_source c = ''B'') (createdEntries st)) \<le> 1
    | None \<Rightarrow> False) \<and>
   map_option (\<lambda>p. map (\<lambda>c. fst (snd c)) (snd (snd p)))
     (runSummary (cloneEntry 10 (ServerContentfulCloneService None) cycleRepository ''t0'' ''A'' ''it'')) =
     Some [''A'', ''B'', ''A'']"
proof -
  have wf: "\<forall>i e. repo_getEntry cycleRepository i = Some e \<longrightarrow> e_id e = i"
    by (auto simp: cycleRepository_def cyclePage_def linkingEntry_def split: if_splits)
  have "final (cloneEntry 10 (ServerContentfulCloneService None) cycleRepository ''t0'' ''A'' ''it'')
          \<noteq> None"
    by code_simp
  then obtain st where st:
    "final (cloneEntry 10 (ServerContentfulCloneService None) cycleRepository ''t0'' ''A'' ''it'') = Some st"
    by blast
  from clone_at_most_one_per_reference[OF wf st, of "''B''"]
  have "length (filter (\<lambda>c. ce_source c = ''B'') (createdEntries st)) \<le> 1" by simp
  moreover have "map_option (\<lambda>p. map (\<lambda>c. fst (snd c)) (snd (snd p)))
     (runSummary (cloneEntry 10 (ServerContentfulCloneService None) cycleRepository ''t0'' ''A'' ''it'')) =
     Some [''A'', ''B'', ''A'']"
    by code_simp
  ultimately show ?thesis using st by simp
qed

end
